theory Spec2Isabelle
  imports Main
begin

section \<open>Values exchanged with the host and the remote store\<close>

text \<open>
  JavaScript strings that the code passes around (tokens, repository names, file names,
  URLs, file contents) are modelled as \<open>string\<close>: the bytes of their UTF-8 encoding, so that
  \<open>Buffer.from(text)\<close> and \<open>buffer.toString()\<close> are the identity on them. The texts of the
  errors the code constructs itself are Japanese; they are kept as lists of UTF-16 code
  units, the way a JavaScript string stores them. \<open>utf16\<close> gives the code units of an
  ASCII string, which is what the file names and the fixed Latin parts of the messages are.
\<close>

type_synonym text16 = "nat list"

definition utf16 :: "string \<Rightarrow> text16" where
  "utf16 s = map of_char s"

text \<open>
  A thrown value is either an error for which \<open>axios.isAxiosError\<close> holds, with the value
  of \<open>error.response?.status\<close> (\<open>None\<close> when there is no response, as for a network
  failure), or any other \<open>Error\<close>, with its message.
\<close>

datatype error =
    AxiosError "nat option"
  | Error text16

type_synonym headers = "(string \<times> string) list"

text \<open>The body of a PUT on the contents endpoint: \<open>updateData\<close> and \<open>createData\<close>.\<close>

record put_data =
  message :: string
  content :: string
  sha :: "string option"

text \<open>
  Modelled from the spec: the type of \<open>response.data\<close> of a GET on the contents endpoint
  (axios leaves it untyped): the transport-encoded content and the revision token.
\<close>

record file_data =
  data_content :: string
  data_sha :: string

record GitHubUser =
  user_login :: string
  user_id :: nat
  avatar_url :: string
  user_name :: "string option"
  email :: "string option"

datatype request =
    Get string headers
  | Put string put_data headers

datatype prompt = RepositoryPrompt | ClientIdPrompt | ClientSecretPrompt | AuthCodePrompt

datatype notification =
    InformationMessage text16
  | ErrorMessage text16 error

text \<open>
  Calls into the host that act on a store of the model and may still fail: for each of
  them the environment's \<open>fault\<close> says whether, in the current world, the call throws
  (and then leaves the store as it is) or goes through.
\<close>

datatype host_call =
    SecretsGet string
  | SecretsStore string
  | ConfigUpdate string
  | WriteFile string
  | OpenExternal string

record ExtensionInfo =
  ext_id :: string
  ext_name :: string
  ext_version :: string
  ext_description :: "string option"

record ExtensionsData =
  extensions :: "ExtensionInfo list"
  lastUpdated :: string
  vscodeVersion :: string

text \<open>What the code reads of an installed extension: \<open>ext.id\<close> and \<open>ext.packageJSON\<close>.\<close>

record extension =
  id_of :: string
  isBuiltin :: bool
  displayName :: "string option"
  pkg_name :: string
  pkg_version :: string
  pkg_description :: "string option"

record oauth_client =
  client_id :: string
  client_secret :: string

record token_params =
  code :: string
  redirect_uri :: string

section \<open>The environment and the state\<close>

text \<open>
  Everything outside the extension (the remote store, the user in front of the prompts,
  the clock, the libraries) is a record of handlers over a world \<open>'w\<close> that only they
  read and change. \<open>axios.get\<close> has one handler per endpoint
  (\<open>axios_get\<close> for a contents URL, \<open>axios_get_user\<close> for the identity URL), since the
  two payloads have different types.
\<close>

record 'w env =
  axios_get :: "string \<Rightarrow> headers \<Rightarrow> 'w \<Rightarrow> (error + file_data) \<times> 'w"
  axios_get_user :: "string \<Rightarrow> headers \<Rightarrow> 'w \<Rightarrow> (error + GitHubUser) \<times> 'w"
  axios_put :: "string \<Rightarrow> put_data \<Rightarrow> headers \<Rightarrow> 'w \<Rightarrow> (error + unit) \<times> 'w"
  showInputBox :: "prompt \<Rightarrow> 'w \<Rightarrow> string option \<times> 'w"
  getToken :: "oauth_client \<Rightarrow> token_params \<Rightarrow> 'w \<Rightarrow> (error + string) \<times> 'w"
  fault :: "host_call \<Rightarrow> 'w \<Rightarrow> error option"
  toISOString :: "'w \<Rightarrow> string"
  random_state :: "'w \<Rightarrow> string"
  authorizeURL :: "oauth_client \<Rightarrow> string \<Rightarrow> string \<Rightarrow> string \<Rightarrow> string"
  JSON_stringify_user :: "GitHubUser \<Rightarrow> string"
  path_join :: "string list \<Rightarrow> string"
  process_env :: "string \<rightharpoonup> string"
  process_platform :: string
  extensions_all :: "extension list"
  vscode_version :: string

text \<open>
  The state holds the stores the code reads back: the configuration section
  \<open>syncMyExts\<close>, the secret storage and the local files; the world; and two logs that
  the code cannot read: the HTTP requests issued and the notifications shown, oldest first.
\<close>

record 'w state =
  config :: "string \<rightharpoonup> string"
  secrets :: "string \<rightharpoonup> string"
  files :: "string \<rightharpoonup> string"
  world :: 'w
  requests :: "request list"
  notifications :: "notification list"

type_synonym ('w, 'a) prog = "'w state \<Rightarrow> (error + 'a) \<times> 'w state"

definition succeed :: "'a \<Rightarrow> ('w, 'a) prog" where
  "succeed x s = (Inr x, s)"

definition throw :: "error \<Rightarrow> ('w, 'a) prog" where
  "throw e s = (Inl e, s)"

definition andThen :: "('w, 'a) prog \<Rightarrow> ('a \<Rightarrow> ('w, 'b) prog) \<Rightarrow> ('w, 'b) prog" where
  "andThen m f s = (case m s of (Inl e, s') \<Rightarrow> (Inl e, s') | (Inr x, s') \<Rightarrow> f x s')"

definition tryCatch :: "('w, 'a) prog \<Rightarrow> (error \<Rightarrow> ('w, 'a) prog) \<Rightarrow> ('w, 'a) prog" where
  "tryCatch m h s = (case m s of (Inl e, s') \<Rightarrow> h e s' | (Inr x, s') \<Rightarrow> (Inr x, s'))"

text \<open>
  JavaScript's \<open>!x\<close> for an \<open>x\<close> of type \<open>string | undefined\<close>: \<open>undefined\<close> and the
  empty string are falsy.
\<close>

fun falsy :: "string option \<Rightarrow> bool" where
  "falsy None = True"
| "falsy (Some v) = (v = [])"

subsection \<open>Host calls\<close>

definition http_get :: "'w env \<Rightarrow> string \<Rightarrow> headers \<Rightarrow> ('w, file_data) prog" where
  "http_get env url hs s =
     (case axios_get env url hs (world s) of
        (r, w) \<Rightarrow> (r, s\<lparr>world := w, requests := requests s @ [Get url hs]\<rparr>))"

definition http_get_user :: "'w env \<Rightarrow> string \<Rightarrow> headers \<Rightarrow> ('w, GitHubUser) prog" where
  "http_get_user env url hs s =
     (case axios_get_user env url hs (world s) of
        (r, w) \<Rightarrow> (r, s\<lparr>world := w, requests := requests s @ [Get url hs]\<rparr>))"

definition http_put :: "'w env \<Rightarrow> string \<Rightarrow> put_data \<Rightarrow> headers \<Rightarrow> ('w, unit) prog" where
  "http_put env url body hs s =
     (case axios_put env url body hs (world s) of
        (r, w) \<Rightarrow> (r, s\<lparr>world := w, requests := requests s @ [Put url body hs]\<rparr>))"

definition input_box :: "'w env \<Rightarrow> prompt \<Rightarrow> ('w, string option) prog" where
  "input_box env p s =
     (case showInputBox env p (world s) of (r, w) \<Rightarrow> (Inr r, s\<lparr>world := w\<rparr>))"

definition new_Date_toISOString :: "'w env \<Rightarrow> ('w, string) prog" where
  "new_Date_toISOString env s = (Inr (toISOString env (world s)), s)"

definition secrets_get :: "'w env \<Rightarrow> string \<Rightarrow> ('w, string option) prog" where
  "secrets_get env key s =
     (case fault env (SecretsGet key) (world s) of
        Some e \<Rightarrow> (Inl e, s)
      | None \<Rightarrow> (Inr (secrets s key), s))"

definition secrets_store :: "'w env \<Rightarrow> string \<Rightarrow> string \<Rightarrow> ('w, unit) prog" where
  "secrets_store env key v s =
     (case fault env (SecretsStore key) (world s) of
        Some e \<Rightarrow> (Inl e, s)
      | None \<Rightarrow> (Inr (), s\<lparr>secrets := (secrets s)(key \<mapsto> v)\<rparr>))"

definition config_get :: "string \<Rightarrow> string \<Rightarrow> 'w state \<Rightarrow> string" where
  "config_get key dflt s = (case config s key of Some v \<Rightarrow> v | None \<Rightarrow> dflt)"

definition config_update :: "'w env \<Rightarrow> string \<Rightarrow> string \<Rightarrow> ('w, unit) prog" where
  "config_update env key v s =
     (case fault env (ConfigUpdate key) (world s) of
        Some e \<Rightarrow> (Inl e, s)
      | None \<Rightarrow> (Inr (), s\<lparr>config := (config s)(key \<mapsto> v)\<rparr>))"

definition writeFileSync :: "'w env \<Rightarrow> string \<Rightarrow> string \<Rightarrow> ('w, unit) prog" where
  "writeFileSync env path txt s =
     (case fault env (WriteFile path) (world s) of
        Some e \<Rightarrow> (Inl e, s)
      | None \<Rightarrow> (Inr (), s\<lparr>files := (files s)(path \<mapsto> txt)\<rparr>))"

definition existsSync :: "string \<Rightarrow> 'w state \<Rightarrow> bool" where
  "existsSync path s = (files s path \<noteq> None)"

section \<open>Buffer: the base64 transport encoding\<close>

text \<open>
  \<open>Buffer.from(text).toString('base64')\<close> and \<open>Buffer.from(b64, 'base64').toString()\<close>.
  The encoder writes the standard alphabet with padding. The decoder stops at the first
  \<open>=\<close>, skips every character outside the alphabet (line breaks among them), accepts the
  URL-safe \<open>-\<close> and \<open>_\<close>, and drops a trailing lone sextet.
\<close>

definition digit64 :: "nat \<Rightarrow> char" where
  "digit64 v =
     (if v < 26 then char_of (65 + v)
      else if v < 52 then char_of (71 + v)
      else if v < 62 then char_of (v - 4)
      else if v = 62 then CHR ''+''
      else CHR ''/'')"

definition sextet :: "char \<Rightarrow> nat option" where
  "sextet c =
     (let n = (of_char c :: nat) in
      if 65 \<le> n \<and> n \<le> 90 then Some (n - 65)
      else if 97 \<le> n \<and> n \<le> 122 then Some (n - 71)
      else if 48 \<le> n \<and> n \<le> 57 then Some (n + 4)
      else if n = 43 \<or> n = 45 then Some 62
      else if n = 47 \<or> n = 95 then Some 63
      else None)"

fun encode_bytes :: "nat list \<Rightarrow> string" where
  "encode_bytes (a # b # c # rest) =
     [digit64 (a div 4), digit64 ((a mod 4) * 16 + b div 16),
      digit64 ((b mod 16) * 4 + c div 64), digit64 (c mod 64)] @ encode_bytes rest"
| "encode_bytes [a, b] =
     [digit64 (a div 4), digit64 ((a mod 4) * 16 + b div 16),
      digit64 ((b mod 16) * 4), CHR ''='']"
| "encode_bytes [a] =
     [digit64 (a div 4), digit64 ((a mod 4) * 16), CHR ''='', CHR ''='']"
| "encode_bytes [] = []"

fun decode_sextets :: "nat list \<Rightarrow> nat list" where
  "decode_sextets (a # b # c # d # rest) =
     [a * 4 + b div 16, (b mod 16) * 16 + c div 4, (c mod 4) * 64 + d] @ decode_sextets rest"
| "decode_sextets [a, b, c] = [a * 4 + b div 16, (b mod 16) * 16 + c div 4]"
| "decode_sextets [a, b] = [a * 4 + b div 16]"
| "decode_sextets [a] = []"
| "decode_sextets [] = []"

definition toBase64 :: "string \<Rightarrow> string" where
  "toBase64 text = encode_bytes (map of_char text)"

definition fromBase64 :: "string \<Rightarrow> string" where
  "fromBase64 b64 =
     map char_of (decode_sextets (List.map_filter sextet (takeWhile (\<lambda>c. c \<noteq> CHR ''='') b64)))"

section \<open>JSON.stringify\<close>

text \<open>\<open>Array.prototype.join\<close> on strings.\<close>

fun join :: "string \<Rightarrow> string list \<Rightarrow> string" where
  "join sep [] = []"
| "join sep [x] = x"
| "join sep (x # y # ys) = x @ sep @ join sep (y # ys)"

text \<open>
  \<open>JSON.stringify(data, null, 2)\<close> on an \<open>ExtensionsData\<close>. A string is quoted with the
  escapes of the language standard: the short escapes for backspace, tab, line feed, form
  feed, carriage return, the double quote and the backslash, \<open>u00XX\<close> with lower-case
  digits after a backslash for the other characters below \<open>0x20\<close>; every other character
  stands for itself. With the indentation of two spaces each member of an object and each
  element of an array has a line of its own, a colon and a space separate a key from its
  value, an empty array is \<open>[]\<close>, and a property whose value is \<open>undefined\<close> (an absent
  description) is left out.
\<close>

definition hex_digit :: "nat \<Rightarrow> char" where
  "hex_digit n = (if n < 10 then char_of (48 + n) else char_of (87 + n))"

definition QuoteJSONChar :: "char \<Rightarrow> string" where
  "QuoteJSONChar c =
     (let n = (of_char c :: nat) in
      if n = 0x08 then [CHR 0x5C, CHR ''b'']
      else if n = 0x09 then [CHR 0x5C, CHR ''t'']
      else if n = 0x0A then [CHR 0x5C, CHR ''n'']
      else if n = 0x0C then [CHR 0x5C, CHR ''f'']
      else if n = 0x0D then [CHR 0x5C, CHR ''r'']
      else if n = 0x22 then [CHR 0x5C, CHR 0x22]
      else if n = 0x5C then [CHR 0x5C, CHR 0x5C]
      else if n < 0x20 then
        [CHR 0x5C, CHR ''u'', CHR ''0'', CHR ''0'', hex_digit (n div 16), hex_digit (n mod 16)]
      else [c])"

definition QuoteJSONString :: "string \<Rightarrow> string" where
  "QuoteJSONString s = [CHR 0x22] @ concat (map QuoteJSONChar s) @ [CHR 0x22]"

definition json_object :: "string \<Rightarrow> (string \<times> string) list \<Rightarrow> string" where
  "json_object indent members =
     (if members = [] then ''{}''
      else ''{'' @ [CHR 0x0A] @
           join ('','' @ [CHR 0x0A])
             (map (\<lambda>(k, v). indent @ ''  '' @ QuoteJSONString k @ '': '' @ v) members) @
           [CHR 0x0A] @ indent @ ''}'')"

definition json_array :: "string \<Rightarrow> string list \<Rightarrow> string" where
  "json_array indent elements =
     (if elements = [] then ''[]''
      else ''['' @ [CHR 0x0A] @
           join ('','' @ [CHR 0x0A]) (map (\<lambda>v. indent @ ''  '' @ v) elements) @
           [CHR 0x0A] @ indent @ '']'')"

definition json_ExtensionInfo :: "string \<Rightarrow> ExtensionInfo \<Rightarrow> string" where
  "json_ExtensionInfo indent e =
     json_object indent
       ([(''id'', QuoteJSONString (ext_id e)),
         (''name'', QuoteJSONString (ext_name e)),
         (''version'', QuoteJSONString (ext_version e))] @
        (case ext_description e of
           None \<Rightarrow> []
         | Some d \<Rightarrow> [(''description'', QuoteJSONString d)]))"

definition JSON_stringify :: "ExtensionsData \<Rightarrow> string" where
  "JSON_stringify data =
     json_object []
       [(''extensions'',
           json_array ''  '' (map (json_ExtensionInfo ''    '') (extensions data))),
        (''lastUpdated'', QuoteJSONString (lastUpdated data)),
        (''vscodeVersion'', QuoteJSONString (vscodeVersion data))]"

section \<open>ExtensionSync\<close>

subsection \<open>Messages of the errors the code throws\<close>

definition repository_not_entered :: text16 where
  "repository_not_entered =
     [0x30EA, 0x30DD, 0x30B8, 0x30C8, 0x30EA, 0x540D, 0x304C, 0x5165, 0x529B, 0x3055,
      0x308C, 0x307E, 0x305B, 0x3093, 0x3067, 0x3057, 0x305F]"

definition login_required :: text16 where
  "login_required =
     utf16 ''GitHub'' @
     [0x306B, 0x30ED, 0x30B0, 0x30A4, 0x30F3, 0x3057, 0x3066, 0x304F, 0x3060, 0x3055,
      0x3044, 0x3002, 0x30B5, 0x30A4, 0x30C9, 0x30D0, 0x30FC, 0x304B, 0x3089, 0x300C] @
     utf16 ''GitHub'' @
     [0x306B, 0x30ED, 0x30B0, 0x30A4, 0x30F3, 0x300D, 0x3092, 0x5B9F, 0x884C, 0x3057,
      0x3066, 0x304F, 0x3060, 0x3055, 0x3044, 0x3002]"

definition repository_format :: text16 where
  "repository_format =
     [0x30EA, 0x30DD, 0x30B8, 0x30C8, 0x30EA, 0x540D, 0x306E, 0x5F62, 0x5F0F, 0x304C,
      0x6B63, 0x3057, 0x304F, 0x3042, 0x308A, 0x307E, 0x305B, 0x3093, 0x3002, 0x4F8B] @
     utf16 '': username/repo-name''"

text \<open>
  The fixed part of the message of \<open>getFileContent\<close>: a space, then "was not found.
  Run the synchronisation first." in Japanese.
\<close>

definition sync_first :: text16 where
  "sync_first =
     [0x20, 0x304C, 0x898B, 0x3064, 0x304B, 0x308A, 0x307E, 0x305B, 0x3093, 0x3002,
      0x5148, 0x306B, 0x540C, 0x671F, 0x3092, 0x5B9F, 0x884C, 0x3057, 0x3066, 0x304F,
      0x3060, 0x3055, 0x3044, 0x3002]"

subsection \<open>Configuration, credential and repository\<close>

record sync_config =
  cfg_repository :: string
  cfg_fileName :: string

definition getConfig :: "'w state \<Rightarrow> sync_config" where
  "getConfig s =
     \<lparr>cfg_repository = config_get ''repository'' [] s,
      cfg_fileName = config_get ''fileName'' ''extensions.json'' s\<rparr>"

definition getStoredToken :: "'w env \<Rightarrow> ('w, string option) prog" where
  "getStoredToken env =
     tryCatch
       (andThen (secrets_get env ''github-token'')
          (\<lambda>t. succeed (if falsy t then None else t)))
       (\<lambda>error. succeed None)"

definition getGitHubToken :: "'w env \<Rightarrow> ('w, string) prog" where
  "getGitHubToken env =
     andThen (getStoredToken env)
       (\<lambda>token. case token of
          None \<Rightarrow> throw (Error login_required)
        | Some t \<Rightarrow> if t = [] then throw (Error login_required) else succeed t)"

definition getRepository :: "'w env \<Rightarrow> ('w, string) prog" where
  "getRepository env s =
     (let repository = cfg_repository (getConfig s) in
      if repository = [] then
        andThen (input_box env RepositoryPrompt)
          (\<lambda>inputRepository.
             if falsy inputRepository then throw (Error repository_not_entered)
             else
               andThen (config_update env ''repository'' (the inputRepository))
                 (\<lambda>_. succeed (the inputRepository))) s
      else succeed repository s)"

text \<open>
  \<open>String.prototype.split\<close> with a one-character separator: every occurrence of the
  separator ends a piece, and the empty string gives one empty piece.
\<close>

fun split :: "char \<Rightarrow> string \<Rightarrow> string list" where
  "split sep [] = [[]]"
| "split sep (c # cs) =
     (if c = sep then [] # split sep cs
      else (case split sep cs of
              [] \<Rightarrow> [[c]]
            | p # ps \<Rightarrow> (c # p) # ps))"

text \<open>
  Lines 247 to 250 and 291 to 294 of the source:
  \<open>const [owner, repo] = repository.split('/')\<close> binds the first two pieces
  (\<open>undefined\<close> where the array is shorter) and the guard rejects a falsy one.
\<close>

definition splitRepository :: "string \<Rightarrow> ('w, string \<times> string) prog" where
  "splitRepository repository' =
     (let pieces = split (CHR ''/'') repository';
          owner = (case pieces of [] \<Rightarrow> None | a # _ \<Rightarrow> Some a);
          repo = (case pieces of a # b # _ \<Rightarrow> Some b | _ \<Rightarrow> None)
      in if falsy owner \<or> falsy repo then throw (Error repository_format)
         else succeed (the owner, the repo))"

definition contents_url :: "string \<Rightarrow> string \<Rightarrow> string \<Rightarrow> string" where
  "contents_url owner repo targetFile =
     ''https://api.github.com/repos/'' @ owner @ ''/'' @ repo @ ''/contents/'' @ targetFile"

definition target_file :: "string option \<Rightarrow> 'w state \<Rightarrow> string" where
  "target_file fileName' s =
     (if falsy fileName' then cfg_fileName (getConfig s) else the fileName')"

subsection \<open>createOrUpdateFile and getFileContent\<close>

definition updateData :: "string \<Rightarrow> string \<Rightarrow> string \<Rightarrow> string \<Rightarrow> put_data" where
  "updateData targetFile date text sha' =
     \<lparr>message = ''Update '' @ targetFile @ '' - '' @ date,
      content = toBase64 text,
      sha = Some sha'\<rparr>"

definition createData :: "string \<Rightarrow> string \<Rightarrow> string \<Rightarrow> put_data" where
  "createData targetFile date text =
     \<lparr>message = ''Create '' @ targetFile @ '' - '' @ date,
      content = toBase64 text,
      sha = None\<rparr>"

definition upsert_headers :: "string \<Rightarrow> headers" where
  "upsert_headers token =
     [(''Authorization'', ''token '' @ token), (''Content-Type'', ''application/json'')]"

definition fetch_headers :: "string \<Rightarrow> headers" where
  "fetch_headers token = [(''Authorization'', ''token '' @ token)]"

text \<open>
  In \<open>updateData\<close> the message, with its date, is evaluated before the second GET that
  supplies \<open>sha\<close>. The whole of it, and the PUT after it, stand inside the \<open>try\<close>.
\<close>

definition createOrUpdateFile :: "'w env \<Rightarrow> string \<Rightarrow> string option \<Rightarrow> ('w, unit) prog" where
  "createOrUpdateFile env text fileName' s =
     (let targetFile = target_file fileName' s in
      andThen (getGitHubToken env) (\<lambda>token.
      andThen (getRepository env) (\<lambda>repository.
      andThen (splitRepository repository) (\<lambda>(owner, repo).
        let apiUrl = contents_url owner repo targetFile;
            hs = upsert_headers token
        in tryCatch
             (andThen (http_get env apiUrl hs) (\<lambda>_.
              andThen (new_Date_toISOString env) (\<lambda>date.
              andThen (http_get env apiUrl hs) (\<lambda>response.
                http_put env apiUrl
                  (updateData targetFile date text (data_sha response)) hs))))
             (\<lambda>error.
                if error = AxiosError (Some 404) then
                  andThen (new_Date_toISOString env) (\<lambda>date.
                    http_put env apiUrl (createData targetFile date text) hs)
                else throw error)))) s)"

definition getFileContent :: "'w env \<Rightarrow> string option \<Rightarrow> ('w, string) prog" where
  "getFileContent env fileName' s =
     (let targetFile = target_file fileName' s in
      andThen (getGitHubToken env) (\<lambda>token.
      andThen (getRepository env) (\<lambda>repository.
      andThen (splitRepository repository) (\<lambda>(owner, repo).
        let apiUrl = contents_url owner repo targetFile;
            hs = fetch_headers token
        in tryCatch
             (andThen (http_get env apiUrl hs) (\<lambda>response.
                succeed (fromBase64 (data_content response))))
             (\<lambda>error.
                if error = AxiosError (Some 404)
                then throw (Error (utf16 targetFile @ sync_first))
                else throw error)))) s)"

subsection \<open>Extensions and settings\<close>

definition getInstalledExtensions :: "'w env \<Rightarrow> ExtensionInfo list" where
  "getInstalledExtensions env =
     map (\<lambda>ext.
            \<lparr>ext_id = id_of ext,
             ext_name = (if falsy (displayName ext) then pkg_name ext else the (displayName ext)),
             ext_version = pkg_version ext,
             ext_description = pkg_description ext\<rparr>)
         (filter (\<lambda>ext. \<not> isBuiltin ext) (extensions_all env))"

definition getenv :: "'w env \<Rightarrow> string \<Rightarrow> string" where
  "getenv env var = (if falsy (process_env env var) then [] else the (process_env env var))"

definition getUserSettingsPath :: "'w env \<Rightarrow> string" where
  "getUserSettingsPath env =
     (let appData =
            (if falsy (process_env env ''APPDATA'')
             then (if process_platform env = ''darwin''
                   then path_join env [getenv env ''HOME'', ''Library/Application Support'']
                   else path_join env [getenv env ''HOME'', ''.config''])
             else the (process_env env ''APPDATA''))
      in if process_platform env = ''win32''
         then path_join env [appData, ''Code'', ''User'', ''settings.json'']
         else if process_platform env = ''darwin''
         then path_join env [appData, ''Code'', ''User'', ''settings.json'']
         else path_join env [appData, ''Code'', ''User'', ''settings.json''])"

definition getRemoteSettingsPath :: "'w env \<Rightarrow> 'w state \<Rightarrow> string option" where
  "getRemoteSettingsPath env s =
     (if falsy (process_env env ''VSCODE_REMOTE_ENV'') then
        (if falsy (process_env env ''HOME'') then None
         else
           (let sshPath = path_join env [the (process_env env ''HOME''), ''.vscode-server'',
                                          ''data'', ''Machine'', ''settings.json'']
            in if existsSync sshPath s then Some sshPath else None))
      else Some (path_join env [the (process_env env ''VSCODE_REMOTE_ENV''),
                                ''data'', ''Machine'', ''settings.json'']))"

definition importSettings :: "'w env \<Rightarrow> ('w, unit) prog" where
  "importSettings env =
     andThen (getFileContent env (Some ''settings.json'')) (\<lambda>userSettingsContent.
     andThen (writeFileSync env (getUserSettingsPath env) userSettingsContent) (\<lambda>_.
       tryCatch
         (andThen (getFileContent env (Some ''remote-settings.json''))
            (\<lambda>remoteSettingsContent s.
               case getRemoteSettingsPath env s of
                 None \<Rightarrow> succeed () s
               | Some remoteSettingsPath \<Rightarrow>
                   writeFileSync env remoteSettingsPath remoteSettingsContent s))
         (\<lambda>e. succeed ())))"

definition syncExtensions :: "'w env \<Rightarrow> ('w, unit) prog" where
  "syncExtensions env s =
     (let data = \<lparr>extensions = getInstalledExtensions env,
                  lastUpdated = toISOString env (world s),
                  vscodeVersion = vscode_version env\<rparr>
      in createOrUpdateFile env (JSON_stringify data) None s)"

section \<open>GitHubAuth\<close>

definition oauth_not_configured :: text16 where
  "oauth_not_configured =
     utf16 ''GitHub OAuth App'' @ [0x306E] @ utf16 ''Client ID'' @ [0x3068] @
     utf16 ''Client Secret'' @
     [0x304C, 0x8A2D, 0x5B9A, 0x3055, 0x308C, 0x3066, 0x3044, 0x307E, 0x305B, 0x3093, 0x3002]"

definition auth_code_not_entered :: text16 where
  "auth_code_not_entered =
     [0x8A8D, 0x8A3C, 0x30B3, 0x30FC, 0x30C9, 0x304C, 0x5165, 0x529B, 0x3055, 0x308C,
      0x307E, 0x305B, 0x3093, 0x3067, 0x3057, 0x305F]"

definition logged_in_as :: text16 where
  "logged_in_as =
     utf16 ''GitHub'' @
     [0x306B, 0x30ED, 0x30B0, 0x30A4, 0x30F3, 0x3057, 0x307E, 0x3057, 0x305F] @ utf16 '': ''"

definition login_failed :: text16 where
  "login_failed =
     utf16 ''GitHub'' @
     [0x30ED, 0x30B0, 0x30A4, 0x30F3, 0x306B, 0x5931, 0x6557, 0x3057, 0x307E, 0x3057, 0x305F] @
     utf16 '': ''"

text \<open>
  An instance of \<open>GitHubAuth\<close>. Its field \<open>config\<close> is the configuration object that the
  constructor obtains once: a snapshot of the configuration at that moment. \<open>get\<close> on it
  reads the snapshot; \<open>update\<close> on it writes the stored configuration of the state and
  leaves the snapshot as it is. (The field \<open>context\<close> is the secret storage of the state.)
\<close>

record GitHubAuth =
  this_config :: "string \<rightharpoonup> string"

definition new_GitHubAuth :: "'w state \<Rightarrow> GitHubAuth" where
  "new_GitHubAuth s = \<lparr>this_config = config s\<rparr>"

definition this_config_get :: "GitHubAuth \<Rightarrow> string \<Rightarrow> string \<Rightarrow> string" where
  "this_config_get this key dflt = (case this_config this key of Some v \<Rightarrow> v | None \<Rightarrow> dflt)"

definition REDIRECT_URI :: string where
  "REDIRECT_URI = ''http://localhost:3000/callback''"

definition SCOPES :: "string list" where
  "SCOPES = [''repo'', ''user'']"

definition showInformationMessage :: "text16 \<Rightarrow> ('w, unit) prog" where
  "showInformationMessage msg s =
     (Inr (), s\<lparr>notifications := notifications s @ [InformationMessage msg]\<rparr>)"

text \<open>The text shown is the prefix followed by the thrown value, converted to a string.\<close>

definition showErrorMessage :: "text16 \<Rightarrow> error \<Rightarrow> ('w, unit) prog" where
  "showErrorMessage prefix e s =
     (Inr (), s\<lparr>notifications := notifications s @ [ErrorMessage prefix e]\<rparr>)"

definition openExternal :: "'w env \<Rightarrow> string \<Rightarrow> ('w, unit) prog" where
  "openExternal env uri s =
     (case fault env (OpenExternal uri) (world s) of
        Some e \<Rightarrow> (Inl e, s)
      | None \<Rightarrow> (Inr (), s))"

definition oauth2_getToken :: "'w env \<Rightarrow> oauth_client \<Rightarrow> token_params \<Rightarrow> ('w, string) prog" where
  "oauth2_getToken env oauth2 tokenParams s =
     (case getToken env oauth2 tokenParams (world s) of (r, w) \<Rightarrow> (r, s\<lparr>world := w\<rparr>))"

definition getOAuth2Client :: "GitHubAuth \<Rightarrow> ('w, oauth_client) prog" where
  "getOAuth2Client this s =
     (let clientId = this_config_get this ''clientId'' [];
          clientSecret = this_config_get this ''clientSecret'' []
      in if clientId = [] \<or> clientSecret = []
         then throw (Error oauth_not_configured) s
         else succeed \<lparr>client_id = clientId, client_secret = clientSecret\<rparr> s)"

definition generateState :: "'w env \<Rightarrow> ('w, string) prog" where
  "generateState env s = (Inr (random_state env (world s)), s)"

definition user_url :: string where
  "user_url = ''https://api.github.com/user''"

definition user_headers :: "string \<Rightarrow> headers" where
  "user_headers token =
     [(''Authorization'', ''token '' @ token), (''Accept'', ''application/vnd.github.v3+json'')]"

definition getGitHubUser :: "'w env \<Rightarrow> string \<Rightarrow> ('w, GitHubUser) prog" where
  "getGitHubUser env token = http_get_user env user_url (user_headers token)"

definition saveToken :: "'w env \<Rightarrow> string \<Rightarrow> GitHubUser \<Rightarrow> ('w, unit) prog" where
  "saveToken env token user =
     andThen (secrets_store env ''github-token'' token) (\<lambda>_.
       secrets_store env ''github-user'' (JSON_stringify_user env user))"

text \<open>
  \<open>setupOAuthApp\<close>: the two \<open>this.config.update\<close> calls come after both prompts and write
  the stored configuration.
\<close>

definition setupOAuthApp :: "'w env \<Rightarrow> ('w, bool) prog" where
  "setupOAuthApp env =
     andThen (input_box env ClientIdPrompt) (\<lambda>clientId.
       if falsy clientId then succeed False
       else
         andThen (input_box env ClientSecretPrompt) (\<lambda>clientSecret.
           if falsy clientSecret then succeed False
           else
             andThen (config_update env ''clientId'' (the clientId)) (\<lambda>_.
             andThen (config_update env ''clientSecret'' (the clientSecret)) (\<lambda>_.
               succeed True))))"

text \<open>
  \<open>login\<close>: the early \<open>return false\<close> after a cancelled set-up leaves the \<open>try\<close> without
  passing through \<open>catch\<close>; where no set-up is needed, \<open>setupResult\<close> stands for \<open>true\<close>.
  Both the first check and \<open>getOAuth2Client\<close> read \<open>this.config\<close>, the snapshot, which
  does not show what \<open>setupOAuthApp\<close> has just written. \<open>showInformationMessage\<close> is not
  awaited.
\<close>

definition login :: "'w env \<Rightarrow> GitHubAuth \<Rightarrow> ('w, bool) prog" where
  "login env this =
     tryCatch
       (andThen
          (if this_config_get this ''clientId'' [] = [] \<or>
              this_config_get this ''clientSecret'' [] = []
           then setupOAuthApp env else succeed True)
          (\<lambda>setupResult.
             if setupResult then
               andThen (getOAuth2Client this) (\<lambda>oauth2.
               andThen (generateState env) (\<lambda>state'.
               andThen (openExternal env
                          (authorizeURL env oauth2 REDIRECT_URI (join '' '' SCOPES) state')) (\<lambda>_.
               andThen (input_box env AuthCodePrompt) (\<lambda>authCode.
                 if falsy authCode then throw (Error auth_code_not_entered)
                 else
                   andThen (oauth2_getToken env oauth2
                              \<lparr>code = the authCode, redirect_uri = REDIRECT_URI\<rparr>) (\<lambda>token.
                   andThen (getGitHubUser env token) (\<lambda>user.
                   andThen (saveToken env token user) (\<lambda>_.
                   andThen (showInformationMessage (logged_in_as @ utf16 (user_login user)))
                     (\<lambda>_. succeed True))))))))
             else succeed False))
       (\<lambda>error. andThen (showErrorMessage login_failed error) (\<lambda>_. succeed False))"

definition isLoggedIn :: "'w env \<Rightarrow> ('w, bool) prog" where
  "isLoggedIn env =
     andThen (getStoredToken env) (\<lambda>token.
       if falsy token then succeed False
       else
         tryCatch
           (andThen (getGitHubUser env (the token)) (\<lambda>_. succeed True))
           (\<lambda>error. succeed False))"

section \<open>The repository coordinate as the specification words it\<close>

text \<open>
  The specification cuts the string at its first \<open>/\<close> only, and accepts the two parts when
  both are non-empty. This definition follows those words; \<open>splitRepository\<close> follows the
  code.
\<close>

definition split_first :: "char \<Rightarrow> string \<Rightarrow> (string \<times> string) option" where
  "split_first sep r =
     (if sep \<in> set r
      then Some (takeWhile (\<lambda>c. c \<noteq> sep) r, tl (dropWhile (\<lambda>c. c \<noteq> sep) r))
      else None)"

definition coordinate_spec :: "string \<Rightarrow> (string \<times> string) option" where
  "coordinate_spec r =
     (case split_first (CHR ''/'') r of
        None \<Rightarrow> None
      | Some (owner, repoName) \<Rightarrow>
          if owner = [] \<or> repoName = [] then None else Some (owner, repoName))"

section \<open>The remote contents endpoint\<close>

text \<open>
  Modelled from the spec: the remote store behind the contents endpoint, an external
  service of which the repository holds no code. Per file, GET returns the
  transport-encoded content and the revision token, or the not-found condition; PUT
  creates the file when it is absent and no token is sent, updates it when the token sent
  is the current one, and rejects every other write. Revision tokens are content-addressed:
  \<open>revision\<close> computes them. Headers are not inspected.
\<close>

type_synonym remote = "string \<rightharpoonup> file_data"

definition remote_get :: "string \<Rightarrow> headers \<Rightarrow> remote \<Rightarrow> (error + file_data) \<times> remote" where
  "remote_get url hs r =
     (case r url of
        None \<Rightarrow> (Inl (AxiosError (Some 404)), r)
      | Some d \<Rightarrow> (Inr d, r))"

definition remote_put ::
  "(string \<Rightarrow> string) \<Rightarrow> string \<Rightarrow> put_data \<Rightarrow> headers \<Rightarrow> remote \<Rightarrow> (error + unit) \<times> remote" where
  "remote_put revision url body hs r =
     (let stored = \<lparr>data_content = content body, data_sha = revision (content body)\<rparr> in
      case r url of
        None \<Rightarrow>
          (case sha body of
             None \<Rightarrow> (Inr (), r(url \<mapsto> stored))
           | Some t \<Rightarrow> (Inl (AxiosError (Some 422)), r))
      | Some d \<Rightarrow>
          (case sha body of
             None \<Rightarrow> (Inl (AxiosError (Some 422)), r)
           | Some t \<Rightarrow>
               if t = data_sha d then (Inr (), r(url \<mapsto> stored))
               else (Inl (AxiosError (Some 409)), r)))"

section \<open>Concrete environments and states\<close>

text \<open>
  An environment in which nothing answers: every network call fails without a response,
  every prompt is cancelled, and no host call fails. The others are built from it.
\<close>

definition quiet :: "'w env" where
  "quiet =
     \<lparr>axios_get = (\<lambda>url hs w. (Inl (AxiosError None), w)),
      axios_get_user = (\<lambda>url hs w. (Inl (AxiosError None), w)),
      axios_put = (\<lambda>url body hs w. (Inl (AxiosError None), w)),
      showInputBox = (\<lambda>p w. (None, w)),
      getToken = (\<lambda>oauth2 tokenParams w. (Inl (AxiosError None), w)),
      fault = (\<lambda>c w. None),
      toISOString = (\<lambda>w. ''2024-05-01T09:00:00.000Z''),
      random_state = (\<lambda>w. ''k3x9q0z7m2a''),
      authorizeURL = (\<lambda>oauth2 redirect scope state'.
        ''https://github.com/login/oauth/authorize?client_id='' @ client_id oauth2 @
        ''&redirect_uri='' @ redirect @ ''&scope='' @ scope @ ''&state='' @ state'),
      JSON_stringify_user =
        (\<lambda>u. ''{'' @ QuoteJSONString ''login'' @ '':'' @ QuoteJSONString (user_login u) @ ''}''),
      path_join = join ''/'',
      process_env = [''HOME'' \<mapsto> ''/home/alice''],
      process_platform = ''linux'',
      extensions_all = [],
      vscode_version = ''1.89.0''\<rparr>"

text \<open>
  A scripted remote: the world counts the HTTP exchanges so far, and the \<open>n\<close>-th
  exchange is answered by \<open>gets n\<close> or \<open>puts n\<close>.
\<close>

definition scripted :: "(nat \<Rightarrow> error + file_data) \<Rightarrow> (nat \<Rightarrow> error + unit) \<Rightarrow> nat env" where
  "scripted gets puts =
     quiet\<lparr>axios_get := (\<lambda>url hs n. (gets n, Suc n)),
           axios_put := (\<lambda>url body hs n. (puts n, Suc n))\<rparr>"

text \<open>
  The remote store of the section above as an environment; a revision token is the first
  seven characters of the encoded content.
\<close>

definition github :: "remote env" where
  "github = quiet\<lparr>axios_get := remote_get, axios_put := remote_put (take 7)\<rparr>"

text \<open>A user who is logged in and has chosen the repository \<open>alice/my-exts\<close>.\<close>

definition signed_in :: "'w \<Rightarrow> 'w state" where
  "signed_in w =
     \<lparr>config = [''repository'' \<mapsto> ''alice/my-exts''],
      secrets = [''github-token'' \<mapsto> ''gho_2b9f''],
      files = Map.empty,
      world = w,
      requests = [],
      notifications = []\<rparr>"

text \<open>What a read of a file holding \<open>{}\<close> returns.\<close>

definition found :: file_data where
  "found = \<lparr>data_content = ''e30='', data_sha = ''3f1a9c0''\<rparr>"

text \<open>
  Two scripted remotes. In the first both reads find the file and the update is answered
  with 404; in the second the first read finds the file and the second read is answered
  with 404, as when the file is deleted between the two.
\<close>

definition rejecting_update :: "nat env" where
  "rejecting_update =
     scripted (\<lambda>n. Inr found) (\<lambda>n. if n = 2 then Inl (AxiosError (Some 404)) else Inr ())"

definition vanishing :: "nat env" where
  "vanishing =
     scripted (\<lambda>n. if n = 0 then Inr found else Inl (AxiosError (Some 404))) (\<lambda>n. Inr ())"

text \<open>An identity, and a remote whose identity endpoint accepts every token.\<close>

definition octocat :: GitHubUser where
  "octocat = \<lparr>user_login = ''octocat'', user_id = 583231,
     avatar_url = ''https://avatars.githubusercontent.com/u/583231'',
     user_name = Some ''The Octocat'', email = None\<rparr>"

definition identity_ok :: "unit env" where
  "identity_ok = quiet\<lparr>axios_get_user := (\<lambda>url hs w. (Inr octocat, w))\<rparr>"

text \<open>
  Remotes for \<open>importSettings\<close>. All hold \<open>settings.json\<close>. In \<open>secondary_absent\<close> the
  second file is not there; in \<open>drops_after_first\<close> the network fails after the first
  exchange; in \<open>remote_mode\<close> the second file is there and the host runs remote-connected,
  so a remote settings path resolves; in \<open>remote_read_only\<close> that path cannot be written.
\<close>

definition secondary_absent :: "nat env" where
  "secondary_absent =
     scripted (\<lambda>n. if n = 0 then Inr found else Inl (AxiosError (Some 404))) (\<lambda>n. Inr ())"

definition drops_after_first :: "nat env" where
  "drops_after_first =
     scripted (\<lambda>n. if n = 0 then Inr found else Inl (AxiosError None)) (\<lambda>n. Inr ())"

definition remote_mode :: "nat env" where
  "remote_mode =
     (scripted (\<lambda>n. if n = 0 then Inr found
                    else Inr \<lparr>data_content = ''WzEsIDJd'', data_sha = ''77c2e1b''\<rparr>)
               (\<lambda>n. Inr ()))
       \<lparr>process_env := [''HOME'' \<mapsto> ''/home/alice'', ''VSCODE_REMOTE_ENV'' \<mapsto> ''/srv/vscode'']\<rparr>"

definition remote_read_only :: "nat env" where
  "remote_read_only =
     remote_mode
       \<lparr>fault := (\<lambda>c w. if c = WriteFile ''/srv/vscode/data/Machine/settings.json''
                         then Some (Error (utf16 ''EACCES: permission denied'')) else None)\<rparr>"

text \<open>What a request of an upsert of \<open>text\<close> to \<open>apiUrl\<close> may be.\<close>

definition upserts :: "string \<Rightarrow> string \<Rightarrow> request \<Rightarrow> bool" where
  "upserts apiUrl text q =
     (case q of
        Get url hs \<Rightarrow> url = apiUrl
      | Put url body hs \<Rightarrow> url = apiUrl \<and> content body = toBase64 text)"

text \<open>
  A host with two extensions of the user and a built-in one, and the snapshot taken of it.
\<close>

definition two_extensions :: "remote env" where
  "two_extensions =
     github\<lparr>extensions_all :=
       [\<lparr>id_of = ''ms.python'', isBuiltin = False, displayName = Some ''Python'',
         pkg_name = ''python'', pkg_version = ''1.0.0'',
         pkg_description = Some ''Python language support''\<rparr>,
        \<lparr>id_of = ''vscode.git'', isBuiltin = True, displayName = Some ''Git'',
         pkg_name = ''git'', pkg_version = ''1.0.0'', pkg_description = None\<rparr>,
        \<lparr>id_of = ''ms.go'', isBuiltin = False, displayName = None,
         pkg_name = ''go'', pkg_version = ''2.0.0'', pkg_description = None\<rparr>]\<rparr>"

definition snapshot :: ExtensionsData where
  "snapshot =
     \<lparr>extensions =
        [\<lparr>ext_id = ''ms.python'', ext_name = ''Python'', ext_version = ''1.0.0'',
          ext_description = Some ''Python language support''\<rparr>,
         \<lparr>ext_id = ''ms.go'', ext_name = ''go'', ext_version = ''2.0.0'',
          ext_description = None\<rparr>],
      lastUpdated = ''2024-05-01T09:00:00.000Z'',
      vscodeVersion = ''1.89.0''\<rparr>"

text \<open>A remote store that already holds \<open>extensions.json\<close> of the repository.\<close>

definition holding :: remote where
  "holding =
     [''https://api.github.com/repos/alice/my-exts/contents/extensions.json'' \<mapsto>
        \<lparr>data_content = ''WzEsIDJd'', data_sha = ''77c2e1b''\<rparr>]"

text \<open>
  Two properties of a program, used to follow \<open>login\<close> through its steps. It leaves a
  component of the state as it found it. It spares the secret storage: it answers true,
  or leaves the secret storage as it found it, or has added \<open>github-token\<close> alone, the
  write of \<open>github-user\<close> being one that the host refuses in the world it ends in.
\<close>

definition preserves :: "('w state \<Rightarrow> 'a) \<Rightarrow> ('w, 'b) prog \<Rightarrow> bool" where
  "preserves f m = (\<forall>s. f (snd (m s)) = f s)"

definition token_alone :: "'w env \<Rightarrow> 'w state \<Rightarrow> 'w state \<Rightarrow> bool" where
  "token_alone env s s' =
     (\<exists>token e. fault env (SecretsStore ''github-user'') (world s') = Some e \<and>
                secrets s' = (secrets s)(''github-token'' \<mapsto> token))"

definition spares :: "'w env \<Rightarrow> ('w, bool) prog \<Rightarrow> bool" where
  "spares env m =
     (\<forall>s. fst (m s) = Inr True \<or> secrets (snd (m s)) = secrets s \<or>
          token_alone env s (snd (m s)))"

text \<open>
  A fresh installation, and an installation whose configuration names a client id and a
  client secret. The instance of a run is constructed on the state the run starts in.
\<close>

definition fresh :: "'w \<Rightarrow> 'w state" where
  "fresh w =
     \<lparr>config = Map.empty, secrets = Map.empty, files = Map.empty, world = w,
      requests = [], notifications = []\<rparr>"

definition installed :: "unit state" where
  "installed =
     \<lparr>config =
        [''clientId'' \<mapsto> ''Iv1.8a61f9b3a7aba766'', ''clientSecret'' \<mapsto> ''5c1f0d3e9b7a''],
      secrets = Map.empty, files = Map.empty, world = (), requests = [], notifications = []\<rparr>"

text \<open>
  Three users. The first enters a client id and cancels the prompt for the secret. The
  second enters both. The third pastes a code that the remote exchanges for a token of
  \<open>octocat\<close>, while the secret storage refuses the write of the identity.
\<close>

definition cancels_secret :: "unit env" where
  "cancels_secret =
     quiet\<lparr>showInputBox :=
       (\<lambda>p w. (if p = ClientIdPrompt then Some ''Iv1.8a61f9b3a7aba766'' else None, w))\<rparr>"

definition enters_both :: "unit env" where
  "enters_both =
     quiet\<lparr>showInputBox :=
       (\<lambda>p w. (if p = ClientIdPrompt then Some ''Iv1.8a61f9b3a7aba766''
                else if p = ClientSecretPrompt then Some ''5c1f0d3e9b7a''
                else None, w))\<rparr>"

definition identity_refused :: "unit env" where
  "identity_refused =
     quiet\<lparr>showInputBox :=
             (\<lambda>p w. (if p = AuthCodePrompt then Some ''9c4e17d2a0b3'' else None, w)),
           getToken := (\<lambda>oauth2 tokenParams w. (Inr ''gho_2b9f'', w)),
           axios_get_user := (\<lambda>url hs w. (Inr octocat, w)),
           fault := (\<lambda>c w. if c = SecretsStore ''github-user''
                            then Some (Error (utf16 ''write failed'')) else None)\<rparr>"

section \<open>Properties of the base64 encoding\<close>

lemma sextet_digit64: "v < 64 \<Longrightarrow> sextet (digit64 v) = Some v"
  by (auto simp add: sextet_def digit64_def Let_def)

lemma digit64_not_pad: "v < 64 \<Longrightarrow> digit64 v \<noteq> CHR ''=''"
  using sextet_digit64 [of v] by (auto simp add: sextet_def)

lemma takeWhile_digit64:
  "v < 64 \<Longrightarrow> takeWhile (\<lambda>c. c \<noteq> CHR ''='') (digit64 v # cs) =
     digit64 v # takeWhile (\<lambda>c. c \<noteq> CHR ''='') cs"
  by (simp add: digit64_not_pad)

lemma map_filter_digit64:
  "v < 64 \<Longrightarrow> List.map_filter sextet (digit64 v # cs) = v # List.map_filter sextet cs"
  by (simp add: sextet_digit64)

lemma takeWhile_pad: "takeWhile (\<lambda>c. c \<noteq> CHR ''='') (CHR ''='' # cs) = []"
  by simp

lemma map_filter_Nil: "List.map_filter f [] = []"
  by (simp add: List.map_filter_def)

lemma sextet1_lt: "(a::nat) < 256 \<Longrightarrow> a div 4 < 64"
  by simp

lemma sextet2_lt: "(a::nat) < 256 \<Longrightarrow> b < 256 \<Longrightarrow> a mod 4 * 16 + b div 16 < 64"
proof -
  assume "b < 256"
  then have "b div 16 < 16" by simp
  moreover have "a mod 4 < 4" by simp
  ultimately show ?thesis by linarith
qed
lemma sextet3_lt: "(b::nat) < 256 \<Longrightarrow> c < 256 \<Longrightarrow> b mod 16 * 4 + c div 64 < 64"
proof -
  assume "c < 256"
  then have "c div 64 < 4" by simp
  moreover have "b mod 16 < 16" by simp
  ultimately show ?thesis by linarith
qed
lemma sextet3_last_lt: "(b::nat) mod 16 * 4 < 64"
proof -
  have "b mod 16 < 16" by simp
  then show ?thesis by linarith
qed
lemma sextet2_last_lt: "(a::nat) mod 4 * 16 < 64"
proof -
  have "a mod 4 < 4" by simp
  then show ?thesis by linarith
qed

lemma byte1_joined:
  "(a::nat) < 256 \<Longrightarrow> b < 256 \<Longrightarrow> a div 4 * 4 + (a mod 4 * 16 + b div 16) div 16 = a"
proof -
  assume "b < 256"
  then have "b div 16 < 16" by simp
  then have "(a mod 4 * 16 + b div 16) div 16 = a mod 4" by simp
  then show ?thesis by simp
qed
lemma byte2_joined:
  "(b::nat) < 256 \<Longrightarrow> c < 256 \<Longrightarrow>
   (a mod 4 * 16 + b div 16) mod 16 * 16 + (b mod 16 * 4 + c div 64) div 4 = b"
proof -
  assume "b < 256" "c < 256"
  then have "b div 16 < 16" "c div 64 < 4" by simp_all
  then have "(a mod 4 * 16 + b div 16) mod 16 = b div 16" "(b mod 16 * 4 + c div 64) div 4 = b mod 16" by simp_all
  then show ?thesis by simp
qed
lemma byte3_joined: "(c::nat) < 256 \<Longrightarrow> (b mod 16 * 4 + c div 64) mod 4 * 64 + c mod 64 = c"
proof -
  assume "c < 256"
  then have "c div 64 < 4" by simp
  then have "(b mod 16 * 4 + c div 64) mod 4 = c div 64" by simp
  then show ?thesis by simp
qed
lemma byte2_last:
  "(b::nat) < 256 \<Longrightarrow> (a mod 4 * 16 + b div 16) mod 16 * 16 + (b mod 16 * 4) div 4 = b"
proof -
  assume "b < 256"
  then have "b div 16 < 16" by simp
  then have "(a mod 4 * 16 + b div 16) mod 16 = b div 16" by simp
  then show ?thesis by simp
qed
lemma byte1_last: "(a::nat) div 4 * 4 + (a mod 4 * 16) div 16 = a"
  by simp

lemma decode_encode_bytes:
  "\<forall>b \<in> set bs. b < 256 \<Longrightarrow>
   decode_sextets (List.map_filter sextet (takeWhile (\<lambda>c. c \<noteq> CHR ''='') (encode_bytes bs))) = bs"
proof (induction bs rule: encode_bytes.induct)
  case (1 a b c rest)
  then have lt: "a < 256" "b < 256" "c < 256" and rest: "\<forall>b \<in> set rest. b < 256"
    by simp_all
  have v: "a div 4 < 64" "a mod 4 * 16 + b div 16 < 64" "b mod 16 * 4 + c div 64 < 64"
    "c mod 64 < 64"
    using lt by (simp_all add: sextet2_lt sextet3_lt)
  show ?case
    using "1.IH" [OF rest] lt v
    by (simp only: encode_bytes.simps append.simps takeWhile_digit64 map_filter_digit64
        decode_sextets.simps byte1_joined byte2_joined byte3_joined)
next
  case (2 a b)
  then have lt: "a < 256" "b < 256"
    by simp_all
  have v: "a div 4 < 64" "a mod 4 * 16 + b div 16 < 64" "b mod 16 * 4 < 64"
    using lt by (simp_all add: sextet2_lt sextet3_last_lt)
  show ?case
    using v lt by (simp only: encode_bytes.simps takeWhile_digit64 map_filter_digit64
        takeWhile_pad map_filter_Nil decode_sextets.simps byte1_joined byte2_last)
next
  case (3 a)
  then have lt: "a < 256"
    by simp
  have v: "a div 4 < 64" "a mod 4 * 16 < 64"
    using lt by (simp_all add: sextet2_last_lt)
  show ?case
    using v by (simp only: encode_bytes.simps takeWhile_digit64 map_filter_digit64
        takeWhile_pad map_filter_Nil decode_sextets.simps byte1_last)
next
  case 4
  then show ?case by (simp add: map_filter_Nil)
qed

lemma fromBase64_toBase64: "fromBase64 (toBase64 text) = text"
proof -
  have "\<forall>b \<in> set (map of_char text :: nat list). b < 256"
    by simp
  then show ?thesis
    by (simp add: fromBase64_def toBase64_def decode_encode_bytes map_idI)
qed

section \<open>Properties of the repository coordinate\<close>

lemma split_no_sep: "sep \<notin> set a \<Longrightarrow> split sep a = [a]"
  by (induction a) auto

lemma split_at_sep: "sep \<notin> set a \<Longrightarrow> split sep (a @ sep # rest) = a # split sep rest"
  by (induction a) auto

lemma split_first_at: "sep \<notin> set a \<Longrightarrow> split_first sep (a @ sep # rest) = Some (a, rest)"
proof -
  assume a: "sep \<notin> set a"
  then have "takeWhile (\<lambda>c. c \<noteq> sep) (a @ sep # rest) = a"
    by (induction a) auto
  moreover from a have "dropWhile (\<lambda>c. c \<noteq> sep) (a @ sep # rest) = sep # rest"
    by (induction a) auto
  ultimately show ?thesis
    by (simp add: split_first_def)
qed

lemma decompose: "sep \<in> set r \<Longrightarrow> \<exists>a rest. r = a @ sep # rest \<and> sep \<notin> set a"
  by (rule split_list_first)

lemma splitRepository_no_separator:
  "CHR ''/'' \<notin> set r \<Longrightarrow> splitRepository r s = (Inl (Error repository_format), s)"
  by (simp add: splitRepository_def split_no_sep Let_def throw_def)

lemma splitRepository_at_separator:
  assumes "CHR ''/'' \<notin> set a"
  shows "splitRepository (a @ CHR ''/'' # rest) s =
           (case split (CHR ''/'') rest of
              b # _ \<Rightarrow> if a = [] \<or> b = [] then (Inl (Error repository_format), s)
                       else (Inr (a, b), s)
            | [] \<Rightarrow> (Inl (Error repository_format), s))"
  using assms
  by (simp add: splitRepository_def split_at_sep Let_def throw_def succeed_def
      split: list.splits)

lemma coordinate_spec_no_separator: "CHR ''/'' \<notin> set r \<Longrightarrow> coordinate_spec r = None"
  by (simp add: coordinate_spec_def split_first_def)

lemma coordinate_spec_at_separator:
  "CHR ''/'' \<notin> set a \<Longrightarrow>
   coordinate_spec (a @ CHR ''/'' # rest) = (if a = [] \<or> rest = [] then None else Some (a, rest))"
  by (simp add: coordinate_spec_def split_first_at)

lemma splitRepository_single_separator:
  assumes "length (filter (\<lambda>c. c = CHR ''/'') r) \<le> 1"
  shows "fst (splitRepository r s) =
           (case coordinate_spec r of
              None \<Rightarrow> Inl (Error repository_format)
            | Some p \<Rightarrow> Inr p)"
proof (cases "CHR ''/'' \<in> set r")
  case False
  then show ?thesis
    by (simp add: splitRepository_no_separator coordinate_spec_no_separator)
next
  case True
  then obtain a rest where r: "r = a @ CHR ''/'' # rest" and a: "CHR ''/'' \<notin> set a"
    using decompose [of "CHR ''/''" r] by blast
  have "filter (\<lambda>c. c = CHR ''/'') a = []"
    using a by (auto simp add: filter_empty_conv)
  with assms r have "filter (\<lambda>c. c = CHR ''/'') rest = []"
    by simp
  then have rest: "CHR ''/'' \<notin> set rest"
    by (auto simp add: filter_empty_conv)
  have "split (CHR ''/'') rest = [rest]"
    using rest by (rule split_no_sep)
  then show ?thesis
    unfolding r
    by (simp add: splitRepository_at_separator [OF a] coordinate_spec_at_separator [OF a])
qed

text \<open>
  C2. Parsing a repository coordinate: the code splits at every \<open>/\<close> and keeps the first
  two pieces, so the string \<open>alice/my-exts/extra\<close> is accepted as owner \<open>alice\<close> and
  repository \<open>my-exts\<close>, its third segment dropped without an error. Cut at the first \<open>/\<close>
  only, as the specification words it, the same string gives the repository name
  \<open>my-exts/extra\<close>.
\<close>

theorem splitRepository_drops_extra_segment:
  "splitRepository ''alice/my-exts/extra'' s = (Inr (''alice'', ''my-exts''), s) \<and>
   coordinate_spec ''alice/my-exts/extra'' = Some (''alice'', ''my-exts/extra'')"
proof -
  have "splitRepository ''alice/my-exts/extra'' s = (Inr (''alice'', ''my-exts''), s)"
    by (simp add: splitRepository_def succeed_def throw_def)
  moreover have "coordinate_spec ''alice/my-exts/extra'' = Some (''alice'', ''my-exts/extra'')"
    by code_simp
  ultimately show ?thesis
    by simp
qed

section \<open>Properties of createOrUpdateFile and getFileContent\<close>

lemma getStoredToken_state: "snd (getStoredToken env s) = s"
  by (simp add: getStoredToken_def tryCatch_def andThen_def succeed_def secrets_get_def
      split: option.splits prod.splits sum.splits)

lemma getGitHubToken_state: "snd (getGitHubToken env s) = s"
  using getStoredToken_state [of env s]
  by (cases "getStoredToken env s")
     (auto simp add: getGitHubToken_def andThen_def succeed_def throw_def
      split: option.splits prod.splits sum.splits)

lemma getRepository_requests: "requests (snd (getRepository env s)) = requests s"
  by (simp add: getRepository_def Let_def andThen_def succeed_def throw_def input_box_def
      config_update_def split: option.splits prod.splits sum.splits)

lemma splitRepository_state: "snd (splitRepository r s) = s"
  by (simp add: splitRepository_def Let_def succeed_def throw_def)

lemma createOrUpdateFile_resolved:
  assumes tok: "getGitHubToken env s = (Inr token, s1)"
    and rep: "getRepository env s1 = (Inr repository, s2)"
    and spl: "splitRepository repository s2 = (Inr (owner, repo), s3)"
  shows "createOrUpdateFile env text fileName' s =
     (let targetFile = target_file fileName' s;
          apiUrl = contents_url owner repo targetFile;
          hs = upsert_headers token
      in tryCatch
             (andThen (http_get env apiUrl hs) (\<lambda>_.
              andThen (new_Date_toISOString env) (\<lambda>date.
              andThen (http_get env apiUrl hs) (\<lambda>response.
                http_put env apiUrl
                  (updateData targetFile date text (data_sha response)) hs))))
             (\<lambda>error.
                if error = AxiosError (Some 404) then
                  andThen (new_Date_toISOString env) (\<lambda>date.
                    http_put env apiUrl (createData targetFile date text) hs)
                else throw error) s3)"
  using assms by (simp add: createOrUpdateFile_def andThen_def Let_def)

lemma getFileContent_resolved:
  assumes tok: "getGitHubToken env s = (Inr token, s1)"
    and rep: "getRepository env s1 = (Inr repository, s2)"
    and spl: "splitRepository repository s2 = (Inr (owner, repo), s3)"
  shows "getFileContent env fileName' s =
     (let targetFile = target_file fileName' s;
          apiUrl = contents_url owner repo targetFile;
          hs = fetch_headers token
      in tryCatch
             (andThen (http_get env apiUrl hs) (\<lambda>response.
                succeed (fromBase64 (data_content response))))
             (\<lambda>error.
                if error = AxiosError (Some 404)
                then throw (Error (utf16 targetFile @ sync_first))
                else throw error) s3)"
  using assms by (simp add: getFileContent_def andThen_def Let_def)

lemma resolved_requests:
  assumes tok: "getGitHubToken env s = (Inr token, s1)"
    and rep: "getRepository env s1 = (Inr repository, s2)"
    and spl: "splitRepository repository s2 = (Inr (owner, repo), s3)"
  shows "requests s3 = requests s"
  using getGitHubToken_state [of env s] getRepository_requests [of env s1]
    splitRepository_state [of repository s2] assms by simp

text \<open>
  C10. The update and the second read stand inside the \<open>try\<close> of the existence check:
  when both reads find the file and the update is answered with 404, the handler issues a
  second write, a create without a revision token, to the same path, and the result of the
  call is the result of that create.
\<close>

theorem update_not_found_falls_back_to_create:
  assumes tok: "getGitHubToken env s = (Inr token, s1)"
    and rep: "getRepository env s1 = (Inr repository, s2)"
    and spl: "splitRepository repository s2 = (Inr (owner, repo), s3)"
    and url: "apiUrl = contents_url owner repo (target_file fileName' s)"
    and hs: "hs = upsert_headers token"
    and g1: "axios_get env apiUrl hs (world s3) = (Inr existing, w1)"
    and g2: "axios_get env apiUrl hs w1 = (Inr response, w2)"
    and upd: "upd = updateData (target_file fileName' s) (toISOString env w1) text (data_sha response)"
    and p1: "axios_put env apiUrl upd hs w2 = (Inl (AxiosError (Some 404)), w3)"
    and cre: "cre = createData (target_file fileName' s) (toISOString env w3) text"
    and p2: "axios_put env apiUrl cre hs w3 = (r, w4)"
  shows "fst (createOrUpdateFile env text fileName' s) = r \<and>
         requests (snd (createOrUpdateFile env text fileName' s)) =
           requests s @ [Get apiUrl hs, Get apiUrl hs, Put apiUrl upd hs, Put apiUrl cre hs] \<and>
         sha upd = Some (data_sha response) \<and> sha cre = None"
proof -
  have rq: "requests s3 = requests s"
    using resolved_requests [OF tok rep spl] .
  show ?thesis
    unfolding createOrUpdateFile_resolved [OF tok rep spl]
    using g1 g2 p1 p2 rq
    by (simp add: Let_def tryCatch_def andThen_def http_get_def http_put_def
        new_Date_toISOString_def url [symmetric] hs [symmetric] upd [symmetric] cre [symmetric])
       (simp add: upd cre updateData_def createData_def)
qed

lemma signed_in_token: "getGitHubToken (scripted gets puts) (signed_in w) = (Inr ''gho_2b9f'', signed_in w)"
  by (simp add: getGitHubToken_def getStoredToken_def tryCatch_def andThen_def succeed_def
      secrets_get_def scripted_def quiet_def signed_in_def)

lemma signed_in_repository:
  "getRepository env (signed_in w) = (Inr ''alice/my-exts'', signed_in w)"
  by (simp add: getRepository_def getConfig_def config_get_def succeed_def signed_in_def Let_def)

lemma alice_my_exts: "splitRepository ''alice/my-exts'' s = (Inr (''alice'', ''my-exts''), s)"
  by (simp add: splitRepository_def succeed_def)

lemma signed_in_target: "target_file None (signed_in w) = ''extensions.json''"
  by (simp add: target_file_def getConfig_def config_get_def signed_in_def)

theorem update_not_found_falls_back_to_create_witness:
  "fst (createOrUpdateFile rejecting_update ''{}'' None (signed_in 0)) = Inr () \<and>
   requests (snd (createOrUpdateFile rejecting_update ''{}'' None (signed_in 0))) =
     [Get ''https://api.github.com/repos/alice/my-exts/contents/extensions.json''
        (upsert_headers ''gho_2b9f''),
      Get ''https://api.github.com/repos/alice/my-exts/contents/extensions.json''
        (upsert_headers ''gho_2b9f''),
      Put ''https://api.github.com/repos/alice/my-exts/contents/extensions.json''
        \<lparr>message = ''Update extensions.json - 2024-05-01T09:00:00.000Z'',
         content = ''e30='', sha = Some ''3f1a9c0''\<rparr>
        (upsert_headers ''gho_2b9f''),
      Put ''https://api.github.com/repos/alice/my-exts/contents/extensions.json''
        \<lparr>message = ''Create extensions.json - 2024-05-01T09:00:00.000Z'',
         content = ''e30='', sha = None\<rparr>
        (upsert_headers ''gho_2b9f'')]"
proof -
  let ?url = "contents_url ''alice'' ''my-exts'' (target_file None (signed_in (0::nat)))"
  let ?hs = "upsert_headers ''gho_2b9f''"
  have tok: "getGitHubToken rejecting_update (signed_in 0) = (Inr ''gho_2b9f'', signed_in 0)"
    unfolding rejecting_update_def by (rule signed_in_token)
  have g1: "axios_get rejecting_update ?url ?hs (world (signed_in (0::nat))) = (Inr found, 1)"
    by (simp add: rejecting_update_def scripted_def quiet_def signed_in_def)
  have g2: "axios_get rejecting_update ?url ?hs 1 = (Inr found, 2)"
    by (simp add: rejecting_update_def scripted_def quiet_def)
  have p1: "axios_put rejecting_update ?url
              (updateData (target_file None (signed_in (0::nat))) (toISOString rejecting_update 1) ''{}'' (data_sha found))
              ?hs 2 = (Inl (AxiosError (Some 404)), 3)"
    by (simp add: rejecting_update_def scripted_def quiet_def)
  have p2: "axios_put rejecting_update ?url
              (createData (target_file None (signed_in (0::nat))) (toISOString rejecting_update 3) ''{}'')
              ?hs 3 = (Inr (), 4)"
    by (simp add: rejecting_update_def scripted_def quiet_def)
  have enc: "toBase64 ''{}'' = ''e30=''"
    by code_simp
  show ?thesis
    using update_not_found_falls_back_to_create
      [OF tok signed_in_repository alice_my_exts refl refl g1 g2 refl p1 refl p2]
    unfolding signed_in_target
    by (simp add: contents_url_def updateData_def createData_def enc
        rejecting_update_def scripted_def quiet_def found_def signed_in_def)
qed


lemma upsert_absent_creates:
  assumes tok: "getGitHubToken env s = (Inr token, s1)"
    and rep: "getRepository env s1 = (Inr repository, s2)"
    and spl: "splitRepository repository s2 = (Inr (owner, repo), s3)"
    and url: "apiUrl = contents_url owner repo (target_file fileName' s)"
    and hs: "hs = upsert_headers token"
    and g1: "axios_get env apiUrl hs (world s3) = (Inl (AxiosError (Some 404)), w1)"
    and cre: "cre = createData (target_file fileName' s) (toISOString env w1) text"
    and p: "axios_put env apiUrl cre hs w1 = (r, w2)"
  shows "fst (createOrUpdateFile env text fileName' s) = r \<and>
         requests (snd (createOrUpdateFile env text fileName' s)) =
           requests s @ [Get apiUrl hs, Put apiUrl cre hs] \<and>
         sha cre = None"
proof -
  have rq: "requests s3 = requests s"
    using resolved_requests [OF tok rep spl] .
  show ?thesis
    unfolding createOrUpdateFile_resolved [OF tok rep spl]
    using g1 p rq
    by (simp add: Let_def tryCatch_def andThen_def http_get_def http_put_def
        new_Date_toISOString_def url [symmetric] hs [symmetric] cre [symmetric])
       (simp add: cre createData_def)
qed

lemma upsert_found_updates:
  assumes tok: "getGitHubToken env s = (Inr token, s1)"
    and rep: "getRepository env s1 = (Inr repository, s2)"
    and spl: "splitRepository repository s2 = (Inr (owner, repo), s3)"
    and url: "apiUrl = contents_url owner repo (target_file fileName' s)"
    and hs: "hs = upsert_headers token"
    and g1: "axios_get env apiUrl hs (world s3) = (Inr existing, w1)"
    and g2: "axios_get env apiUrl hs w1 = (Inr response, w2)"
    and upd: "upd = updateData (target_file fileName' s) (toISOString env w1) text (data_sha response)"
    and p: "axios_put env apiUrl upd hs w2 = (r, w3)"
    and r: "r \<noteq> Inl (AxiosError (Some 404))"
  shows "fst (createOrUpdateFile env text fileName' s) = r \<and>
         requests (snd (createOrUpdateFile env text fileName' s)) =
           requests s @ [Get apiUrl hs, Get apiUrl hs, Put apiUrl upd hs] \<and>
         sha upd = Some (data_sha response)"
proof -
  have rq: "requests s3 = requests s"
    using resolved_requests [OF tok rep spl] .
  show ?thesis
    unfolding createOrUpdateFile_resolved [OF tok rep spl]
    using g1 g2 p r rq
    by (cases r)
       (simp_all add: Let_def tryCatch_def andThen_def http_get_def http_put_def throw_def
        new_Date_toISOString_def url [symmetric] hs [symmetric] upd updateData_def)
qed

lemma upsert_vanished_creates:
  assumes tok: "getGitHubToken env s = (Inr token, s1)"
    and rep: "getRepository env s1 = (Inr repository, s2)"
    and spl: "splitRepository repository s2 = (Inr (owner, repo), s3)"
    and url: "apiUrl = contents_url owner repo (target_file fileName' s)"
    and hs: "hs = upsert_headers token"
    and g1: "axios_get env apiUrl hs (world s3) = (Inr existing, w1)"
    and g2: "axios_get env apiUrl hs w1 = (Inl (AxiosError (Some 404)), w2)"
    and cre: "cre = createData (target_file fileName' s) (toISOString env w2) text"
    and p: "axios_put env apiUrl cre hs w2 = (r, w3)"
  shows "fst (createOrUpdateFile env text fileName' s) = r \<and>
         requests (snd (createOrUpdateFile env text fileName' s)) =
           requests s @ [Get apiUrl hs, Get apiUrl hs, Put apiUrl cre hs] \<and>
         sha cre = None"
proof -
  have rq: "requests s3 = requests s"
    using resolved_requests [OF tok rep spl] .
  show ?thesis
    unfolding createOrUpdateFile_resolved [OF tok rep spl]
    using g1 g2 p rq
    by (simp add: Let_def tryCatch_def andThen_def http_get_def http_put_def
        new_Date_toISOString_def url [symmetric] hs [symmetric] cre [symmetric])
       (simp add: cre createData_def)
qed

text \<open>
  C1. Where the first read is answered with 404, the one write is a create without a
  revision token (\<open>upsert_absent_creates\<close>), and where both reads find the file the first
  write is an update with the token of the second read (\<open>upsert_found_updates\<close>). But a
  file that the first read found is not always written with its token: here the first
  read finds the file, the second is answered with 404, and the only write is a create
  that carries no revision token.
\<close>

theorem upsert_creates_for_found_file:
  "axios_get vanishing ''https://api.github.com/repos/alice/my-exts/contents/extensions.json''
     (upsert_headers ''gho_2b9f'') (world (signed_in (0::nat))) = (Inr found, 1) \<and>
   fst (createOrUpdateFile vanishing ''{}'' None (signed_in 0)) = Inr () \<and>
   requests (snd (createOrUpdateFile vanishing ''{}'' None (signed_in 0))) =
     [Get ''https://api.github.com/repos/alice/my-exts/contents/extensions.json''
        (upsert_headers ''gho_2b9f''),
      Get ''https://api.github.com/repos/alice/my-exts/contents/extensions.json''
        (upsert_headers ''gho_2b9f''),
      Put ''https://api.github.com/repos/alice/my-exts/contents/extensions.json''
        \<lparr>message = ''Create extensions.json - 2024-05-01T09:00:00.000Z'',
         content = ''e30='', sha = None\<rparr>
        (upsert_headers ''gho_2b9f'')]"
proof -
  let ?url = "contents_url ''alice'' ''my-exts'' (target_file None (signed_in (0::nat)))"
  let ?hs = "upsert_headers ''gho_2b9f''"
  have tok: "getGitHubToken vanishing (signed_in 0) = (Inr ''gho_2b9f'', signed_in 0)"
    unfolding vanishing_def by (rule signed_in_token)
  have g1: "axios_get vanishing ?url ?hs (world (signed_in (0::nat))) = (Inr found, 1)"
    by (simp add: vanishing_def scripted_def quiet_def signed_in_def)
  have g2: "axios_get vanishing ?url ?hs 1 = (Inl (AxiosError (Some 404)), 2)"
    by (simp add: vanishing_def scripted_def quiet_def)
  have p: "axios_put vanishing ?url
              (createData (target_file None (signed_in (0::nat))) (toISOString vanishing 2) ''{}'')
              ?hs 2 = (Inr (), 3)"
    by (simp add: vanishing_def scripted_def quiet_def)
  have enc: "toBase64 ''{}'' = ''e30=''"
    by code_simp
  show ?thesis
    using upsert_vanished_creates
      [OF tok signed_in_repository alice_my_exts refl refl g1 g2 refl p]
    unfolding signed_in_target
    by (simp add: contents_url_def createData_def enc
        vanishing_def scripted_def quiet_def found_def signed_in_def)
qed

lemma fetch_failure:
  assumes tok: "getGitHubToken env s = (Inr token, s1)"
    and rep: "getRepository env s1 = (Inr repository, s2)"
    and spl: "splitRepository repository s2 = (Inr (owner, repo), s3)"
    and url: "apiUrl = contents_url owner repo (target_file fileName' s)"
    and g: "axios_get env apiUrl (fetch_headers token) (world s3) = (Inl e, w)"
  shows "getFileContent env fileName' s =
           ((if e = AxiosError (Some 404)
             then throw (Error (utf16 (target_file fileName' s) @ sync_first))
             else throw e)
            (s3\<lparr>world := w, requests := requests s3 @ [Get apiUrl (fetch_headers token)]\<rparr>))"
  unfolding getFileContent_resolved [OF tok rep spl]
  using g
  by (simp add: Let_def tryCatch_def andThen_def http_get_def url [symmetric])

text \<open>
  C5. When the read of \<open>getFileContent\<close> fails, a 404 becomes the error whose message is
  the name of the file followed by the request to synchronise first, and every other
  failure is thrown again as it is.
\<close>

theorem getFileContent_failure:
  assumes tok: "getGitHubToken env s = (Inr token, s1)"
    and rep: "getRepository env s1 = (Inr repository, s2)"
    and spl: "splitRepository repository s2 = (Inr (owner, repo), s3)"
    and url: "apiUrl = contents_url owner repo (target_file fileName' s)"
    and g: "axios_get env apiUrl (fetch_headers token) (world s3) = (Inl e, w)"
  shows "fst (getFileContent env fileName' s) =
           Inl (if e = AxiosError (Some 404)
                then Error (utf16 (target_file fileName' s) @ sync_first)
                else e)"
proof (cases "e = AxiosError (Some 404)")
  case True
  then show ?thesis
    using fetch_failure [OF tok rep spl url g] by (simp add: throw_def)
next
  case False
  then show ?thesis
    using fetch_failure [OF tok rep spl url g] by (simp add: throw_def)
qed

theorem getFileContent_failure_witness:
  "fst (getFileContent (scripted (\<lambda>n. Inl (AxiosError (Some 404))) (\<lambda>n. Inr ()))
         (Some ''settings.json'') (signed_in 0)) =
     Inl (Error (utf16 ''settings.json'' @ sync_first)) \<and>
   fst (getFileContent (scripted (\<lambda>n. Inl (AxiosError (Some 403))) (\<lambda>n. Inr ()))
         (Some ''settings.json'') (signed_in 0)) =
     Inl (AxiosError (Some 403))"
proof -
  have a: "axios_get (scripted (\<lambda>n. Inl (AxiosError (Some 404))) (\<lambda>n. Inr ()))
             (contents_url ''alice'' ''my-exts'' (target_file (Some ''settings.json'') (signed_in (0::nat))))
             (fetch_headers ''gho_2b9f'') (world (signed_in (0::nat))) =
           (Inl (AxiosError (Some 404)), 1)"
    by (simp add: scripted_def quiet_def signed_in_def)
  have b: "axios_get (scripted (\<lambda>n. Inl (AxiosError (Some 403))) (\<lambda>n. Inr ()))
             (contents_url ''alice'' ''my-exts'' (target_file (Some ''settings.json'') (signed_in (0::nat))))
             (fetch_headers ''gho_2b9f'') (world (signed_in (0::nat))) =
           (Inl (AxiosError (Some 403)), 1)"
    by (simp add: scripted_def quiet_def signed_in_def)
  have t: "target_file (Some ''settings.json'') (signed_in (0::nat)) = ''settings.json''"
    by (simp add: target_file_def)
  show ?thesis
    using getFileContent_failure [OF signed_in_token signed_in_repository alice_my_exts refl a]
      getFileContent_failure [OF signed_in_token signed_in_repository alice_my_exts refl b]
    unfolding t by simp
qed

text \<open>
  The error for a missing file can be told from the others \<open>getFileContent\<close> may throw:
  it is no axios error, and its message differs from the messages of the three errors
  raised while the credential and the repository are resolved.
\<close>

lemma suffix_of_append: "xs @ ys = zs \<Longrightarrow> drop (length zs - length ys) zs = ys"
  by auto

lemma not_found_distinguishable:
  "Error (utf16 f @ sync_first) \<noteq> AxiosError status"
  "Error (utf16 f @ sync_first) \<noteq> Error login_required"
  "Error (utf16 f @ sync_first) \<noteq> Error repository_not_entered"
  "Error (utf16 f @ sync_first) \<noteq> Error repository_format"
proof -
  show "Error (utf16 f @ sync_first) \<noteq> AxiosError status"
    by simp
  have a: "drop (length login_required - length sync_first) login_required \<noteq> sync_first"
    by (simp add: login_required_def sync_first_def utf16_def)
  have b: "drop (length repository_not_entered - length sync_first) repository_not_entered \<noteq>
      sync_first"
    by (simp add: repository_not_entered_def sync_first_def)
  have c: "drop (length repository_format - length sync_first) repository_format \<noteq> sync_first"
    by (simp add: repository_format_def sync_first_def utf16_def)
  show "Error (utf16 f @ sync_first) \<noteq> Error login_required"
    using a suffix_of_append [of "utf16 f" sync_first login_required] by auto
  show "Error (utf16 f @ sync_first) \<noteq> Error repository_not_entered"
    using b suffix_of_append [of "utf16 f" sync_first repository_not_entered] by auto
  show "Error (utf16 f @ sync_first) \<noteq> Error repository_format"
    using c suffix_of_append [of "utf16 f" sync_first repository_format] by auto
qed

section \<open>Properties of isLoggedIn\<close>

lemma getStoredToken_cases:
  "getStoredToken env s =
     (case fault env (SecretsGet ''github-token'') (world s) of
        Some e \<Rightarrow> (Inr None, s)
      | None \<Rightarrow> (Inr (if falsy (secrets s ''github-token'') then None
                        else secrets s ''github-token''), s))"
  by (simp add: getStoredToken_def tryCatch_def andThen_def succeed_def secrets_get_def
      split: option.splits)

lemma getStoredToken_truthy: "getStoredToken env s = (Inr (Some token), s') \<Longrightarrow> token \<noteq> []"
  by (auto simp add: getStoredToken_cases split: option.splits if_splits)

lemma isLoggedIn_no_token:
  "fst (getStoredToken env s) = Inr None \<Longrightarrow> isLoggedIn env s = (Inr False, s)"
  using getStoredToken_state [of env s]
  by (cases "getStoredToken env s") (simp add: isLoggedIn_def andThen_def succeed_def)

lemma isLoggedIn_token:
  assumes "fst (getStoredToken env s) = Inr (Some token)"
  shows "fst (isLoggedIn env s) =
           Inr (\<exists>user w. axios_get_user env user_url (user_headers token) (world s) = (Inr user, w)) \<and>
         requests (snd (isLoggedIn env s)) = requests s @ [Get user_url (user_headers token)]"
proof -
  have st: "getStoredToken env s = (Inr (Some token), s)"
    using assms getStoredToken_state [of env s] by (cases "getStoredToken env s") simp
  have "token \<noteq> []"
    using st by (rule getStoredToken_truthy)
  then show ?thesis
    using st
    by (cases "axios_get_user env user_url (user_headers token) (world s)")
       (auto simp add: isLoggedIn_def andThen_def tryCatch_def succeed_def getGitHubUser_def
        http_get_user_def split: sum.splits)
qed

text \<open>
  C8. \<open>isLoggedIn\<close> never throws. It answers false, without a request, when
  \<open>getStoredToken\<close> finds no credential; with a credential it issues exactly one identity
  request carrying that token and answers true exactly when that request succeeds.
\<close>

theorem isLoggedIn_valid:
  "(\<exists>b. fst (isLoggedIn env s) = Inr b) \<and>
   (fst (getStoredToken env s) = Inr None \<longrightarrow> isLoggedIn env s = (Inr False, s)) \<and>
   (\<forall>token. fst (getStoredToken env s) = Inr (Some token) \<longrightarrow>
      fst (isLoggedIn env s) =
        Inr (\<exists>user w. axios_get_user env user_url (user_headers token) (world s) = (Inr user, w)) \<and>
      requests (snd (isLoggedIn env s)) = requests s @ [Get user_url (user_headers token)])"
proof -
  have "\<exists>t. fst (getStoredToken env s) = Inr t"
    by (cases "fault env (SecretsGet ''github-token'') (world s)")
       (simp_all add: getStoredToken_cases)
  then obtain t where t: "fst (getStoredToken env s) = Inr t"
    by blast
  show ?thesis
  proof (cases t)
    case None
    then show ?thesis
      using t isLoggedIn_no_token [of env s] by auto
  next
    case (Some token)
    then show ?thesis
      using t isLoggedIn_token [of env s token] by auto
  qed
qed

theorem isLoggedIn_valid_witness:
  "fst (isLoggedIn identity_ok (signed_in ())) = Inr True \<and>
   requests (snd (isLoggedIn identity_ok (signed_in ()))) =
     [Get ''https://api.github.com/user'' (user_headers ''gho_2b9f'')] \<and>
   fst (isLoggedIn quiet (signed_in ())) = Inr False \<and>
   isLoggedIn identity_ok ((signed_in ())\<lparr>secrets := Map.empty\<rparr>) =
     (Inr False, (signed_in ())\<lparr>secrets := Map.empty\<rparr>)"
proof -
  have a: "fst (getStoredToken identity_ok (signed_in ())) = Inr (Some ''gho_2b9f'')"
    by (simp add: getStoredToken_cases identity_ok_def quiet_def signed_in_def)
  have b: "fst (getStoredToken quiet (signed_in ())) = Inr (Some ''gho_2b9f'')"
    by (simp add: getStoredToken_cases quiet_def signed_in_def)
  have c: "fst (getStoredToken identity_ok ((signed_in ())\<lparr>secrets := Map.empty\<rparr>)) = Inr None"
    by (simp add: getStoredToken_cases identity_ok_def quiet_def signed_in_def)
  show ?thesis
    using isLoggedIn_valid [of identity_ok "signed_in ()"] a
      isLoggedIn_valid [of quiet "signed_in ()"] b
      isLoggedIn_valid [of identity_ok "(signed_in ())\<lparr>secrets := Map.empty\<rparr>"] c
    by (simp add: identity_ok_def quiet_def user_url_def signed_in_def)
qed

section \<open>Properties of importSettings\<close>

lemma getRepository_files: "files (snd (getRepository env s)) = files s"
  by (simp add: getRepository_def Let_def andThen_def succeed_def throw_def input_box_def
      config_update_def split: option.splits prod.splits sum.splits)

lemma getFileContent_files: "files (snd (getFileContent env fileName' s)) = files s"
proof -
  have a: "snd (getGitHubToken env s) = s"
    by (rule getGitHubToken_state)
  show ?thesis
    using a getRepository_files [of env s]
    by (cases "getGitHubToken env s"; cases "getRepository env s")
       (auto simp add: getFileContent_def Let_def andThen_def tryCatch_def succeed_def throw_def
          http_get_def splitRepository_def split: prod.splits sum.splits if_splits)
qed

text \<open>
  C9. Once the primary settings file has been fetched and written, \<open>importSettings\<close>
  reports success whatever happens in the step for the remote settings: everything that
  step can throw (a missing file, a failed request, a failed write) is caught and dropped.
\<close>

theorem importSettings_swallows_secondary_failure:
  assumes "getFileContent env (Some ''settings.json'') s = (Inr userSettingsContent, s1)"
    and "writeFileSync env (getUserSettingsPath env) userSettingsContent s1 = (Inr (), s2)"
  shows "fst (importSettings env s) = Inr ()"
  using assms
  by (simp add: importSettings_def andThen_def tryCatch_def succeed_def
      split: prod.splits sum.splits option.splits)


lemma stored_token_resolves:
  assumes "secrets s ''github-token'' = Some token" and "token \<noteq> []"
    and "fault env (SecretsGet ''github-token'') (world s) = None"
  shows "getGitHubToken env s = (Inr token, s)"
  using assms by (simp add: getGitHubToken_def getStoredToken_cases andThen_def succeed_def)

lemma configured_repository_resolves:
  assumes "config s ''repository'' = Some r" and "r \<noteq> []"
  shows "getRepository env s = (Inr r, s)"
  using assms by (simp add: getRepository_def getConfig_def config_get_def succeed_def Let_def)

lemma getFileContent_found:
  assumes tok: "getGitHubToken env s = (Inr token, s)"
    and rep: "getRepository env s = (Inr repository, s)"
    and spl: "splitRepository repository s = (Inr (owner, repo), s)"
    and url: "apiUrl = contents_url owner repo (target_file fileName' s)"
    and g: "axios_get env apiUrl (fetch_headers token) (world s) = (Inr response, w)"
  shows "getFileContent env fileName' s =
           (Inr (fromBase64 (data_content response)),
            s\<lparr>world := w, requests := requests s @ [Get apiUrl (fetch_headers token)]\<rparr>)"
  unfolding getFileContent_resolved [OF tok rep spl]
  using g
  by (simp add: Let_def tryCatch_def andThen_def http_get_def succeed_def url [symmetric])

lemma decoded_e30: "fromBase64 ''e30='' = ''{}''"
  by code_simp

lemma decoded_WzEsIDJd: "fromBase64 ''WzEsIDJd'' = ''[1, 2]''"
  by code_simp

lemma alice_fetch:
  assumes tok: "secrets s ''github-token'' = Some ''gho_2b9f''"
    and flt: "fault env (SecretsGet ''github-token'') (world s) = None"
    and rep: "config s ''repository'' = Some ''alice/my-exts''"
    and g: "axios_get env (''https://api.github.com/repos/alice/my-exts/contents/'' @ f)
              (fetch_headers ''gho_2b9f'') (world s) = (Inr response, w)"
    and f: "f \<noteq> []"
  shows "getFileContent env (Some f) s =
           (Inr (fromBase64 (data_content response)),
            s\<lparr>world := w,
              requests := requests s @
                [Get (''https://api.github.com/repos/alice/my-exts/contents/'' @ f)
                   (fetch_headers ''gho_2b9f'')]\<rparr>)"
proof -
  have t: "getGitHubToken env s = (Inr ''gho_2b9f'', s)"
    using tok flt by (simp add: stored_token_resolves)
  have r: "getRepository env s = (Inr ''alice/my-exts'', s)"
    using rep by (simp add: configured_repository_resolves)
  have u: "''https://api.github.com/repos/alice/my-exts/contents/'' @ f =
           contents_url ''alice'' ''my-exts'' (target_file (Some f) s)"
    using f by (simp add: contents_url_def target_file_def)
  show ?thesis
    using getFileContent_found [OF t r alice_my_exts u] g by simp
qed

lemma alice_fetch_failed:
  assumes tok: "secrets s ''github-token'' = Some ''gho_2b9f''"
    and flt: "fault env (SecretsGet ''github-token'') (world s) = None"
    and rep: "config s ''repository'' = Some ''alice/my-exts''"
    and g: "axios_get env (''https://api.github.com/repos/alice/my-exts/contents/'' @ f)
              (fetch_headers ''gho_2b9f'') (world s) = (Inl e, w)"
    and f: "f \<noteq> []"
  shows "fst (getFileContent env (Some f) s) =
           Inl (if e = AxiosError (Some 404) then Error (utf16 f @ sync_first) else e)"
proof -
  have t: "getGitHubToken env s = (Inr ''gho_2b9f'', s)"
    using tok flt by (simp add: stored_token_resolves)
  have r: "getRepository env s = (Inr ''alice/my-exts'', s)"
    using rep by (simp add: configured_repository_resolves)
  have u: "''https://api.github.com/repos/alice/my-exts/contents/'' @ f =
           contents_url ''alice'' ''my-exts'' (target_file (Some f) s)"
    using f by (simp add: contents_url_def target_file_def)
  have tf: "target_file (Some f) s = f"
    using f by (simp add: target_file_def)
  show ?thesis
    using fetch_failure [OF t r alice_my_exts u g] tf by (simp add: throw_def)
qed

lemma fetch_drops_after_first:
  "getFileContent drops_after_first (Some ''settings.json'') (signed_in 0) =
     (Inr ''{}'',
      (signed_in 0)\<lparr>world := 1,
        requests :=
          [Get ''https://api.github.com/repos/alice/my-exts/contents/settings.json''
             (fetch_headers ''gho_2b9f'')]\<rparr>)"
  using alice_fetch [of "signed_in 0" drops_after_first "''settings.json''" found 1]
  by (simp add: drops_after_first_def scripted_def quiet_def signed_in_def found_def decoded_e30)

lemma fetch_remote_mode:
  "getFileContent remote_mode (Some ''settings.json'') (signed_in 0) =
     (Inr ''{}'',
      (signed_in 0)\<lparr>world := 1,
        requests :=
          [Get ''https://api.github.com/repos/alice/my-exts/contents/settings.json''
             (fetch_headers ''gho_2b9f'')]\<rparr>)"
  using alice_fetch [of "signed_in 0" remote_mode "''settings.json''" found 1]
  by (simp add: remote_mode_def scripted_def quiet_def signed_in_def found_def decoded_e30)

lemma fetch_remote_read_only:
  "getFileContent remote_read_only (Some ''settings.json'') (signed_in 0) =
     (Inr ''{}'',
      (signed_in 0)\<lparr>world := 1,
        requests :=
          [Get ''https://api.github.com/repos/alice/my-exts/contents/settings.json''
             (fetch_headers ''gho_2b9f'')]\<rparr>)"
  using alice_fetch [of "signed_in 0" remote_read_only "''settings.json''" found 1]
  by (simp add: remote_read_only_def remote_mode_def scripted_def quiet_def signed_in_def
      found_def decoded_e30)

lemma user_path_linux:
  assumes "process_env env ''APPDATA'' = None" and "process_env env ''HOME'' = Some ''/home/alice''"
    and "process_platform env = ''linux''" and "path_join env = join ''/''"
  shows "getUserSettingsPath env = ''/home/alice/.config/Code/User/settings.json''"
  using assms by (simp add: getUserSettingsPath_def getenv_def)

lemma user_path_secondary_absent:
  "getUserSettingsPath secondary_absent = ''/home/alice/.config/Code/User/settings.json''"
  by (rule user_path_linux) (simp_all add: secondary_absent_def scripted_def quiet_def)

lemma user_path_remote_mode:
  "getUserSettingsPath remote_mode = ''/home/alice/.config/Code/User/settings.json''"
  by (rule user_path_linux) (simp_all add: remote_mode_def scripted_def quiet_def)

lemma user_path_remote_read_only:
  "getUserSettingsPath remote_read_only = ''/home/alice/.config/Code/User/settings.json''"
  by (rule user_path_linux)
     (simp_all add: remote_read_only_def remote_mode_def scripted_def quiet_def)

theorem importSettings_swallows_secondary_failure_witness:
  "fst (importSettings drops_after_first (signed_in 0)) = Inr () \<and>
   fst (importSettings remote_read_only (signed_in 0)) = Inr ()"
proof -
  have b: "writeFileSync drops_after_first (getUserSettingsPath drops_after_first) ''{}'' s =
           (Inr (), s\<lparr>files := (files s)(getUserSettingsPath drops_after_first \<mapsto> ''{}'')\<rparr>)"
    for s
    by (simp add: writeFileSync_def drops_after_first_def scripted_def quiet_def)
  have d: "writeFileSync remote_read_only (getUserSettingsPath remote_read_only) ''{}'' s =
           (Inr (), s\<lparr>files := (files s)(getUserSettingsPath remote_read_only \<mapsto> ''{}'')\<rparr>)"
    for s
    unfolding user_path_remote_read_only
    by (simp add: writeFileSync_def remote_read_only_def)
  show ?thesis
    using importSettings_swallows_secondary_failure [OF fetch_drops_after_first b]
      importSettings_swallows_secondary_failure [OF fetch_remote_read_only d]
    by simp
qed

text \<open>
  C6. \<open>importSettings\<close> fetches \<open>settings.json\<close> and writes its content over the local
  settings file, then fetches \<open>remote-settings.json\<close>. When that fetch fails, the file
  being absent among the reasons, the operation succeeds and only the local settings file
  has changed. When it succeeds and a remote settings path is resolved, that file holds
  the fetched content afterwards (unless its write fails, which is dropped as well); with
  no such path nothing more is written.
\<close>

theorem importSettings_overwrites:
  assumes primary: "getFileContent env (Some ''settings.json'') s = (Inr userSettingsContent, s1)"
    and w: "fault env (WriteFile (getUserSettingsPath env)) (world s1) = None"
    and s2: "s2 = s1\<lparr>files := (files s1)(getUserSettingsPath env \<mapsto> userSettingsContent)\<rparr>"
    and secondary: "getFileContent env (Some ''remote-settings.json'') s2 = (r, s3)"
  shows "fst (importSettings env s) = Inr () \<and>
         (case r of
            Inl e \<Rightarrow>
              files (snd (importSettings env s)) =
                (files s)(getUserSettingsPath env \<mapsto> userSettingsContent)
          | Inr remoteSettingsContent \<Rightarrow>
              (case getRemoteSettingsPath env s3 of
                 None \<Rightarrow>
                   files (snd (importSettings env s)) =
                     (files s)(getUserSettingsPath env \<mapsto> userSettingsContent)
               | Some remoteSettingsPath \<Rightarrow>
                   files (snd (importSettings env s)) =
                     (if fault env (WriteFile remoteSettingsPath) (world s3) = None
                      then (files s)(getUserSettingsPath env \<mapsto> userSettingsContent,
                                     remoteSettingsPath \<mapsto> remoteSettingsContent)
                      else (files s)(getUserSettingsPath env \<mapsto> userSettingsContent))))"
proof -
  have f1: "files s1 = files s"
    using getFileContent_files [of env "Some ''settings.json''" s] primary by simp
  have f2: "files s2 = (files s)(getUserSettingsPath env \<mapsto> userSettingsContent)"
    using f1 by (simp add: s2)
  have f3: "files s3 = files s2"
    using getFileContent_files [of env "Some ''remote-settings.json''" s2] secondary by simp
  have wr: "writeFileSync env (getUserSettingsPath env) userSettingsContent s1 = (Inr (), s2)"
    using w by (simp add: writeFileSync_def s2)
  have run: "importSettings env s =
      (case r of
         Inl e \<Rightarrow> (Inr (), s3)
       | Inr remoteSettingsContent \<Rightarrow>
           (case getRemoteSettingsPath env s3 of
              None \<Rightarrow> (Inr (), s3)
            | Some remoteSettingsPath \<Rightarrow>
                (Inr (), snd (writeFileSync env remoteSettingsPath remoteSettingsContent s3))))"
    using primary wr secondary
    by (simp add: importSettings_def andThen_def tryCatch_def succeed_def
        split: sum.splits option.splits prod.splits)
  show ?thesis
    unfolding run using f2 f3
    by (simp add: writeFileSync_def split: sum.splits option.splits)
qed


lemma remote_path_remote_mode:
  "getRemoteSettingsPath remote_mode s = Some ''/srv/vscode/data/Machine/settings.json''"
  by (simp add: getRemoteSettingsPath_def remote_mode_def scripted_def quiet_def)

theorem importSettings_overwrites_witness:
  "fst (importSettings remote_mode (signed_in 0)) = Inr () \<and>
   files (snd (importSettings remote_mode (signed_in 0))) =
     [''/home/alice/.config/Code/User/settings.json'' \<mapsto> ''{}'',
      ''/srv/vscode/data/Machine/settings.json'' \<mapsto> ''[1, 2]''] \<and>
   fst (importSettings secondary_absent (signed_in 0)) = Inr () \<and>
   files (snd (importSettings secondary_absent (signed_in 0))) =
     [''/home/alice/.config/Code/User/settings.json'' \<mapsto> ''{}'']"
proof -
  let ?s1 = "(signed_in (0::nat))\<lparr>world := 1,
        requests :=
          [Get ''https://api.github.com/repos/alice/my-exts/contents/settings.json''
             (fetch_headers ''gho_2b9f'')]\<rparr>"
  let ?s2 = "?s1\<lparr>files := (files ?s1)(''/home/alice/.config/Code/User/settings.json'' \<mapsto> ''{}'')\<rparr>"
  let ?second = "\<lparr>data_content = ''WzEsIDJd'', data_sha = ''77c2e1b''\<rparr>"
  have w1: "fault remote_mode (WriteFile (getUserSettingsPath remote_mode)) (world ?s1) = None"
    by (simp add: remote_mode_def scripted_def quiet_def)
  have s2: "?s2 = ?s1\<lparr>files := (files ?s1)(getUserSettingsPath remote_mode \<mapsto> ''{}'')\<rparr>"
    by (simp add: user_path_remote_mode)
  have sec: "getFileContent remote_mode (Some ''remote-settings.json'') ?s2 =
      (Inr ''[1, 2]'',
       ?s2\<lparr>world := 2,
         requests := requests ?s2 @
           [Get (''https://api.github.com/repos/alice/my-exts/contents/'' @ ''remote-settings.json'')
              (fetch_headers ''gho_2b9f'')]\<rparr>)"
    using alice_fetch [of ?s2 remote_mode "''remote-settings.json''" ?second 2]
    by (simp add: remote_mode_def scripted_def quiet_def signed_in_def decoded_WzEsIDJd)
  have a: "fst (importSettings remote_mode (signed_in 0)) = Inr () \<and>
     files (snd (importSettings remote_mode (signed_in 0))) =
       [''/home/alice/.config/Code/User/settings.json'' \<mapsto> ''{}'',
        ''/srv/vscode/data/Machine/settings.json'' \<mapsto> ''[1, 2]'']"
    using importSettings_overwrites [OF fetch_remote_mode w1 s2 sec]
    by (simp add: remote_path_remote_mode user_path_remote_mode)
       (simp add: remote_mode_def scripted_def quiet_def signed_in_def)
  let ?t1 = "?s1"
  let ?x = "getFileContent secondary_absent (Some ''remote-settings.json'') ?s2"
  have fetch1: "getFileContent secondary_absent (Some ''settings.json'') (signed_in 0) =
      (Inr ''{}'', ?s1)"
    using alice_fetch [of "signed_in 0" secondary_absent "''settings.json''" found 1]
    by (simp add: secondary_absent_def scripted_def quiet_def signed_in_def found_def decoded_e30)
  have w2: "fault secondary_absent (WriteFile (getUserSettingsPath secondary_absent)) (world ?s1) = None"
    by (simp add: secondary_absent_def scripted_def quiet_def)
  have t2: "?s2 = ?s1\<lparr>files := (files ?s1)(getUserSettingsPath secondary_absent \<mapsto> ''{}'')\<rparr>"
    by (simp add: user_path_secondary_absent)
  have fx: "fst ?x = Inl (Error (utf16 ''remote-settings.json'' @ sync_first))"
    using alice_fetch_failed [of ?s2 secondary_absent "''remote-settings.json''"
        "AxiosError (Some 404)" 2]
    by (simp add: secondary_absent_def scripted_def quiet_def signed_in_def)
  obtain s3 where x: "?x = (Inl (Error (utf16 ''remote-settings.json'' @ sync_first)), s3)"
    using fx by (cases ?x) simp
  have b: "fst (importSettings secondary_absent (signed_in 0)) = Inr () \<and>
     files (snd (importSettings secondary_absent (signed_in 0))) =
       [''/home/alice/.config/Code/User/settings.json'' \<mapsto> ''{}'']"
    using importSettings_overwrites [OF fetch1 w2 t2 x]
    by (simp add: user_path_secondary_absent) (simp add: signed_in_def)
  show ?thesis
    using a b by simp
qed

section \<open>Upsert, then fetch\<close>

lemma getGitHubToken_Some:
  assumes "getGitHubToken env s = (Inr token, s1)"
  shows "s1 = s \<and> secrets s ''github-token'' = Some token \<and> token \<noteq> []"
  using assms
  by (auto simp add: getGitHubToken_def getStoredToken_cases andThen_def succeed_def throw_def
      split: option.splits if_splits)

lemma not_falsy: "\<not> falsy x \<Longrightarrow> x = Some (the x) \<and> the x \<noteq> []"
  by (cases x) simp_all

lemma getRepository_Some:
  assumes "getRepository env s = (Inr repository, s2)"
  shows "config s2 ''repository'' = Some repository \<and> repository \<noteq> [] \<and>
         secrets s2 = secrets s \<and> config s2 ''fileName'' = config s ''fileName''"
  using assms
  by (auto simp add: getRepository_def getConfig_def config_get_def Let_def andThen_def
      succeed_def throw_def input_box_def config_update_def
      split: option.splits if_splits prod.splits dest: not_falsy)

lemma splitRepository_anywhere:
  assumes "splitRepository repository s = (Inr p, s2)"
  shows "s2 = s \<and> splitRepository repository t = (Inr p, t)"
  using assms
  by (auto simp add: splitRepository_def Let_def succeed_def throw_def split: if_splits)

lemma upsert_resolved:
  assumes "createOrUpdateFile env text fileName' s = (Inr (), s')"
  shows "\<exists>token repository s2 owner repo.
           getGitHubToken env s = (Inr token, s) \<and>
           getRepository env s = (Inr repository, s2) \<and>
           splitRepository repository s2 = (Inr (owner, repo), s2)"
proof (cases "getGitHubToken env s")
  case (Pair a s1)
  note tok = this
  have s1: "s1 = s"
    using getGitHubToken_state [of env s] tok by simp
  show ?thesis
  proof (cases a)
    case (Inl e)
    then show ?thesis
      using assms tok by (simp add: createOrUpdateFile_def andThen_def Let_def)
  next
    case (Inr token)
    note token = this
    show ?thesis
    proof (cases "getRepository env s")
      case (Pair b s2)
      note rep = this
      show ?thesis
      proof (cases b)
        case (Inl e)
        then show ?thesis
          using assms tok token s1 rep by (simp add: createOrUpdateFile_def andThen_def Let_def)
      next
        case (Inr repository)
        note repository = this
        show ?thesis
        proof (cases "splitRepository repository s2")
          case (Pair c s3)
          have s3: "s3 = s2"
            using splitRepository_state [of repository s2] Pair by simp
          show ?thesis
          proof (cases c)
            case (Inl e)
            then show ?thesis
              using assms tok token s1 rep repository Pair
              by (simp add: createOrUpdateFile_def andThen_def Let_def)
          next
            case (Inr p)
            then show ?thesis
              using tok token s1 rep repository Pair s3 by (cases p) simp
          qed
        qed
      qed
    qed
  qed
qed

lemma upsert_on_remote:
  assumes get: "axios_get env = remote_get" and put: "axios_put env = remote_put revision"
    and tok: "getGitHubToken env s = (Inr token, s)"
    and rep: "getRepository env s = (Inr repository, s2)"
    and spl: "splitRepository repository s2 = (Inr (owner, repo), s2)"
    and url: "apiUrl = contents_url owner repo (target_file fileName' s)"
  shows "\<exists>s'. createOrUpdateFile env text fileName' s = (Inr (), s') \<and>
              config s' = config s2 \<and> secrets s' = secrets s2 \<and>
              world s' apiUrl =
                Some \<lparr>data_content = toBase64 text, data_sha = revision (toBase64 text)\<rparr>"
  unfolding createOrUpdateFile_resolved [OF tok rep spl]
  by (cases "world s2 apiUrl")
     (simp_all add: Let_def tryCatch_def andThen_def http_get_def http_put_def get put
       remote_get_def remote_put_def new_Date_toISOString_def updateData_def createData_def
       url [symmetric])


lemma target_file_config:
  "config s ''fileName'' = config t ''fileName'' \<Longrightarrow> target_file f s = target_file f t"
  by (simp add: target_file_def getConfig_def config_get_def)

text \<open>
  C3. Against the remote store, whatever it holds beforehand, a call of
  \<open>createOrUpdateFile\<close> that succeeds is followed by a \<open>getFileContent\<close> of the same
  file name that returns the text that was written. (By \<open>upsert_on_remote\<close> the call
  does succeed whenever the credential and the repository resolve, by a create when the
  path is new and by an update when it exists.)
\<close>

theorem upsert_then_fetch:
  assumes get: "axios_get env = remote_get" and put: "axios_put env = remote_put revision"
    and read: "\<And>w. fault env (SecretsGet ''github-token'') w = None"
    and up: "createOrUpdateFile env text fileName' s = (Inr (), s')"
  shows "fst (getFileContent env fileName' s') = Inr text"
proof -
  obtain token repository s2 owner repo where
    tok: "getGitHubToken env s = (Inr token, s)" and
    rep: "getRepository env s = (Inr repository, s2)" and
    spl: "splitRepository repository s2 = (Inr (owner, repo), s2)"
    using upsert_resolved [OF up] by blast
  let ?url = "contents_url owner repo (target_file fileName' s)"
  let ?stored = "\<lparr>data_content = toBase64 text, data_sha = revision (toBase64 text)\<rparr>"
  have after: "config s' = config s2" "secrets s' = secrets s2" "world s' ?url = Some ?stored"
    using upsert_on_remote [OF get put tok rep spl refl, of "text" "fileName'"] up by auto
  have token: "secrets s ''github-token'' = Some token" "token \<noteq> []"
    using getGitHubToken_Some [OF tok] by simp_all
  have repository: "config s2 ''repository'' = Some repository" "repository \<noteq> []"
    "secrets s2 = secrets s" "config s2 ''fileName'' = config s ''fileName''"
    using getRepository_Some [OF rep] by simp_all
  have tok': "getGitHubToken env s' = (Inr token, s')"
    using token after(2) repository(3) read by (simp add: stored_token_resolves)
  have rep': "getRepository env s' = (Inr repository, s')"
    using repository(1,2) after(1) by (simp add: configured_repository_resolves)
  have spl': "splitRepository repository s' = (Inr (owner, repo), s')"
    using splitRepository_anywhere [OF spl] by simp
  have url: "?url = contents_url owner repo (target_file fileName' s')"
    using target_file_config [of s' s fileName'] after(1) repository(4) by simp
  have g: "axios_get env ?url (fetch_headers token) (world s') = (Inr ?stored, world s')"
    using after(3) by (simp add: get remote_get_def)
  show ?thesis
    using getFileContent_found [OF tok' rep' spl' url g]
    by (simp add: fromBase64_toBase64)
qed


lemma github_upsert:
  "\<exists>s'. createOrUpdateFile github text' None (signed_in r) = (Inr (), s')"
proof -
  have tok: "getGitHubToken github (signed_in r) = (Inr ''gho_2b9f'', signed_in r)"
    by (rule stored_token_resolves) (simp_all add: signed_in_def github_def quiet_def)
  have rep: "getRepository github (signed_in r) = (Inr ''alice/my-exts'', signed_in r)"
    by (rule configured_repository_resolves) (simp_all add: signed_in_def)
  have "axios_get github = remote_get" "axios_put github = remote_put (take 7)"
    by (simp_all add: github_def quiet_def)
  then show ?thesis
    using upsert_on_remote [OF _ _ tok rep alice_my_exts refl] by blast
qed

theorem upsert_then_fetch_witness:
  "fst (createOrUpdateFile github ''{}'' None (signed_in Map.empty)) = Inr () \<and>
   fst (getFileContent github None
          (snd (createOrUpdateFile github ''{}'' None (signed_in Map.empty)))) = Inr ''{}'' \<and>
   fst (createOrUpdateFile github ''{}'' None (signed_in holding)) = Inr () \<and>
   fst (getFileContent github None
          (snd (createOrUpdateFile github ''{}'' None (signed_in holding)))) = Inr ''{}''"
proof -
  have g: "axios_get github = remote_get" and p: "axios_put github = remote_put (take 7)"
    by (simp_all add: github_def quiet_def)
  have read: "fault github (SecretsGet ''github-token'') w = None" for w
    by (simp add: github_def quiet_def)
  have a: "createOrUpdateFile github ''{}'' None (signed_in r) =
        (Inr (), snd (createOrUpdateFile github ''{}'' None (signed_in r)))" for r
    using github_upsert [of "''{}''" r] by auto
  show ?thesis
    using upsert_then_fetch [OF g p read a [of Map.empty]]
      upsert_then_fetch [OF g p read a [of holding]] a [of Map.empty] a [of holding]
    by (simp add: prod_eq_iff)
qed

text \<open>
  The two runs of the witness, request by request: on the empty store a read and a create;
  on the store that holds the file two reads and an update with the token that was read.
\<close>

lemma github_creates:
  "requests (snd (createOrUpdateFile github ''{}'' None (signed_in Map.empty))) =
     [Get ''https://api.github.com/repos/alice/my-exts/contents/extensions.json''
        (upsert_headers ''gho_2b9f''),
      Put ''https://api.github.com/repos/alice/my-exts/contents/extensions.json''
        \<lparr>message = ''Create extensions.json - 2024-05-01T09:00:00.000Z'',
         content = ''e30='', sha = None\<rparr>
        (upsert_headers ''gho_2b9f'')]"
proof -
  let ?s = "signed_in (Map.empty :: remote)"
  let ?url = "contents_url ''alice'' ''my-exts'' (target_file None ?s)"
  let ?hs = "upsert_headers ''gho_2b9f''"
  have tok: "getGitHubToken github ?s = (Inr ''gho_2b9f'', ?s)"
    by (rule stored_token_resolves) (simp_all add: signed_in_def github_def quiet_def)
  have g1: "axios_get github ?url ?hs (world ?s) = (Inl (AxiosError (Some 404)), Map.empty)"
    by (simp add: github_def quiet_def remote_get_def signed_in_def)
  obtain r w where p: "axios_put github ?url
      (createData (target_file None ?s) (toISOString github Map.empty) ''{}'') ?hs Map.empty = (r, w)"
    by (cases "axios_put github ?url
      (createData (target_file None ?s) (toISOString github Map.empty) ''{}'') ?hs Map.empty")
  have enc: "toBase64 ''{}'' = ''e30=''"
    by code_simp
  show ?thesis
    using upsert_absent_creates [OF tok signed_in_repository alice_my_exts refl refl g1 refl p]
    unfolding signed_in_target
    by (simp add: contents_url_def createData_def enc github_def quiet_def signed_in_def)
qed

lemma github_updates:
  "requests (snd (createOrUpdateFile github ''{}'' None (signed_in holding))) =
     [Get ''https://api.github.com/repos/alice/my-exts/contents/extensions.json''
        (upsert_headers ''gho_2b9f''),
      Get ''https://api.github.com/repos/alice/my-exts/contents/extensions.json''
        (upsert_headers ''gho_2b9f''),
      Put ''https://api.github.com/repos/alice/my-exts/contents/extensions.json''
        \<lparr>message = ''Update extensions.json - 2024-05-01T09:00:00.000Z'',
         content = ''e30='', sha = Some ''77c2e1b''\<rparr>
        (upsert_headers ''gho_2b9f'')]"
proof -
  let ?s = "signed_in holding"
  let ?url = "contents_url ''alice'' ''my-exts'' (target_file None ?s)"
  let ?hs = "upsert_headers ''gho_2b9f''"
  let ?d = "\<lparr>data_content = ''WzEsIDJd'', data_sha = ''77c2e1b''\<rparr>"
  have tok: "getGitHubToken github ?s = (Inr ''gho_2b9f'', ?s)"
    by (rule stored_token_resolves) (simp_all add: signed_in_def github_def quiet_def)
  have u: "?url = ''https://api.github.com/repos/alice/my-exts/contents/extensions.json''"
    by (simp add: signed_in_target contents_url_def)
  have g1: "axios_get github ?url ?hs (world ?s) = (Inr ?d, holding)"
    unfolding u by (simp add: github_def quiet_def remote_get_def signed_in_def holding_def)
  have g2: "axios_get github ?url ?hs holding = (Inr ?d, holding)"
    unfolding u by (simp add: github_def quiet_def remote_get_def holding_def)
  have enc: "toBase64 ''{}'' = ''e30=''"
    by code_simp
  have p: "axios_put github ?url
      (updateData (target_file None ?s) (toISOString github holding) ''{}'' (data_sha ?d)) ?hs holding =
      (Inr (), holding(?url \<mapsto> \<lparr>data_content = ''e30='', data_sha = ''e30=''\<rparr>))"
    unfolding u
    by (simp add: github_def quiet_def remote_put_def holding_def updateData_def enc)
  show ?thesis
    using upsert_found_updates [OF tok signed_in_repository alice_my_exts refl refl g1 g2 refl p]
    unfolding signed_in_target
    by (simp add: contents_url_def updateData_def enc github_def quiet_def signed_in_def)
qed

section \<open>Properties of syncExtensions\<close>

text \<open>
  The outcome of \<open>createOrUpdateFile\<close> once the credential and the repository are
  resolved, by the answers of the remote: the requests it has issued, in order, and its
  result.
\<close>

lemma upsert_outcome:
  assumes tok: "getGitHubToken env s = (Inr token, s1)"
    and rep: "getRepository env s1 = (Inr repository, s2)"
    and spl: "splitRepository repository s2 = (Inr (owner, repo), s3)"
    and f: "f = target_file fileName' s"
    and url: "u = contents_url owner repo f"
    and hs: "hs = upsert_headers token"
  shows "createOrUpdateFile env text' fileName' s =
    (case axios_get env u hs (world s3) of
       (Inl e, w1) \<Rightarrow>
         if e = AxiosError (Some 404) then
           (case axios_put env u (createData f (toISOString env w1) text') hs w1 of
              (r, w2) \<Rightarrow>
                (r, s3\<lparr>world := w2,
                       requests := requests s @
                         [Get u hs, Put u (createData f (toISOString env w1) text') hs]\<rparr>))
         else (Inl e, s3\<lparr>world := w1, requests := requests s @ [Get u hs]\<rparr>)
     | (Inr existing, w1) \<Rightarrow>
         (case axios_get env u hs w1 of
            (Inl e, w2) \<Rightarrow>
              if e = AxiosError (Some 404) then
                (case axios_put env u (createData f (toISOString env w2) text') hs w2 of
                   (r, w3) \<Rightarrow>
                     (r, s3\<lparr>world := w3,
                            requests := requests s @
                              [Get u hs, Get u hs,
                               Put u (createData f (toISOString env w2) text') hs]\<rparr>))
              else (Inl e, s3\<lparr>world := w2, requests := requests s @ [Get u hs, Get u hs]\<rparr>)
          | (Inr response, w2) \<Rightarrow>
              (case axios_put env u
                      (updateData f (toISOString env w1) text' (data_sha response)) hs w2 of
                 (Inl e, w3) \<Rightarrow>
                   if e = AxiosError (Some 404) then
                     (case axios_put env u (createData f (toISOString env w3) text') hs w3 of
                        (r, w4) \<Rightarrow>
                          (r, s3\<lparr>world := w4,
                                 requests := requests s @
                                   [Get u hs, Get u hs,
                                    Put u (updateData f (toISOString env w1) text'
                                             (data_sha response)) hs,
                                    Put u (createData f (toISOString env w3) text') hs]\<rparr>))
                   else (Inl e, s3\<lparr>world := w3,
                                  requests := requests s @
                                    [Get u hs, Get u hs,
                                     Put u (updateData f (toISOString env w1) text'
                                              (data_sha response)) hs]\<rparr>)
               | (Inr x, w3) \<Rightarrow>
                   (Inr x, s3\<lparr>world := w3,
                              requests := requests s @
                                [Get u hs, Get u hs,
                                 Put u (updateData f (toISOString env w1) text'
                                          (data_sha response)) hs]\<rparr>))))"
proof -
  have rq: "requests s3 = requests s"
    using resolved_requests [OF tok rep spl] .
  show ?thesis
    unfolding createOrUpdateFile_resolved [OF tok rep spl]
    by (simp add: Let_def tryCatch_def andThen_def http_get_def http_put_def throw_def
        new_Date_toISOString_def f [symmetric] url [symmetric] hs [symmetric] rq
        split: prod.splits sum.splits)
qed

lemma upsert_success:
  assumes tok: "getGitHubToken env s = (Inr token, s1)"
    and rep: "getRepository env s1 = (Inr repository, s2)"
    and spl: "splitRepository repository s2 = (Inr (owner, repo), s3)"
    and f: "f = target_file fileName' s"
    and url: "u = contents_url owner repo f"
    and hs: "hs = upsert_headers token"
    and ok: "fst (createOrUpdateFile env text' fileName' s) = Inr ()"
  shows "\<exists>before body w w'.
           requests (snd (createOrUpdateFile env text' fileName' s)) =
             requests s @ before @ [Put u body hs] \<and>
           content body = toBase64 text' \<and>
           axios_put env u body hs w = (Inr (), w') \<and>
           world (snd (createOrUpdateFile env text' fileName' s)) = w' \<and>
           list_all (upserts u text') before"
proof -
  note out = upsert_outcome [OF tok rep spl f url hs, of "text'"]
  let ?create = "\<lambda>w. createData f (toISOString env w) text'"
  obtain r1 w1 where g1: "axios_get env u hs (world s3) = (r1, w1)"
    by (cases "axios_get env u hs (world s3)")
  show ?thesis
  proof (cases r1)
    case (Inl e)
    show ?thesis
    proof (cases "e = AxiosError (Some 404)")
      case False
      then show ?thesis
        using ok out g1 Inl by simp
    next
      case True
      obtain r w2 where p: "axios_put env u (?create w1) hs w1 = (r, w2)"
        by (cases "axios_put env u (?create w1) hs w1")
      have run: "createOrUpdateFile env text' fileName' s =
          (r, s3\<lparr>world := w2, requests := requests s @ [Get u hs, Put u (?create w1) hs]\<rparr>)"
        using out g1 Inl True p by simp
      then have "r = Inr ()"
        using ok by simp
      then show ?thesis
        using run p
        by (intro exI [of _ "[Get u hs]"] exI [of _ "?create w1"] exI [of _ w1] exI [of _ w2])
           (simp add: upserts_def createData_def)
    qed
  next
    case (Inr existing)
    note first = this
    obtain r2 w2 where g2: "axios_get env u hs w1 = (r2, w2)"
      by (cases "axios_get env u hs w1")
    show ?thesis
    proof (cases r2)
      case (Inl e)
      show ?thesis
      proof (cases "e = AxiosError (Some 404)")
        case False
        then show ?thesis
          using ok out g1 first g2 Inl by simp
      next
        case True
        obtain r w3 where p: "axios_put env u (?create w2) hs w2 = (r, w3)"
          by (cases "axios_put env u (?create w2) hs w2")
        have run: "createOrUpdateFile env text' fileName' s =
            (r, s3\<lparr>world := w3,
                   requests := requests s @ [Get u hs, Get u hs, Put u (?create w2) hs]\<rparr>)"
          using out g1 first g2 Inl True p by simp
        then have "r = Inr ()"
          using ok by simp
        then show ?thesis
          using run p
          by (intro exI [of _ "[Get u hs, Get u hs]"] exI [of _ "?create w2"] exI [of _ w2]
              exI [of _ w3])
             (simp add: upserts_def createData_def)
      qed
    next
      case (Inr response)
      note second = this
      let ?update = "updateData f (toISOString env w1) text' (data_sha response)"
      obtain r3 w3 where p3: "axios_put env u ?update hs w2 = (r3, w3)"
        by (cases "axios_put env u ?update hs w2")
      show ?thesis
      proof (cases r3)
        case (Inr x)
        have run: "createOrUpdateFile env text' fileName' s =
            (Inr x, s3\<lparr>world := w3,
                       requests := requests s @ [Get u hs, Get u hs, Put u ?update hs]\<rparr>)"
          using out g1 first g2 second p3 Inr by simp
        show ?thesis
          using run p3 Inr
          by (intro exI [of _ "[Get u hs, Get u hs]"] exI [of _ ?update] exI [of _ w2]
              exI [of _ w3])
             (simp add: upserts_def updateData_def)
      next
        case (Inl e)
        show ?thesis
        proof (cases "e = AxiosError (Some 404)")
          case False
          then show ?thesis
            using ok out g1 first g2 second p3 Inl by simp
        next
          case True
          obtain r w4 where p: "axios_put env u (?create w3) hs w3 = (r, w4)"
            by (cases "axios_put env u (?create w3) hs w3")
          have run: "createOrUpdateFile env text' fileName' s =
              (r, s3\<lparr>world := w4,
                     requests := requests s @
                       [Get u hs, Get u hs, Put u ?update hs, Put u (?create w3) hs]\<rparr>)"
            using out g1 first g2 second p3 Inl True p by simp
          then have "r = Inr ()"
            using ok by simp
          then show ?thesis
            using run p
            by (intro exI [of _ "[Get u hs, Get u hs, Put u ?update hs]"]
                exI [of _ "?create w3"] exI [of _ w3] exI [of _ w4])
               (simp add: upserts_def createData_def updateData_def)
        qed
      qed
    qed
  qed
qed

text \<open>
  C7. A call of \<open>syncExtensions\<close> that succeeds has ended with a write that the remote
  accepted, to the configured file name (\<open>extensions.json\<close> where none is configured) of
  the repository, and the content of that write is the base64 encoding of
  \<open>JSON.stringify(data, null, 2)\<close>, where \<open>data\<close> lists the extensions of the host that are
  not built in, in the order of enumeration, each with its id, its display name or else its
  name, its version and its description if it has one, and carries the time of the call
  and the version of the host. Every request before that write is a read of the same file
  or a write of the same content to it.
\<close>

theorem syncExtensions_uploads_snapshot:
  assumes tok: "getGitHubToken env s = (Inr token, s1)"
    and rep: "getRepository env s1 = (Inr repository, s2)"
    and spl: "splitRepository repository s2 = (Inr (owner, repo), s3)"
    and url: "apiUrl = contents_url owner repo (config_get ''fileName'' ''extensions.json'' s)"
    and hs: "hs = upsert_headers token"
    and data: "data =
        \<lparr>extensions =
           map (\<lambda>ext. \<lparr>ext_id = id_of ext,
                       ext_name = (case displayName ext of
                                     None \<Rightarrow> pkg_name ext
                                   | Some d \<Rightarrow> if d = [] then pkg_name ext else d),
                       ext_version = pkg_version ext,
                       ext_description = pkg_description ext\<rparr>)
               (filter (\<lambda>ext. \<not> isBuiltin ext) (extensions_all env)),
         lastUpdated = toISOString env (world s),
         vscodeVersion = vscode_version env\<rparr>"
    and ok: "fst (syncExtensions env s) = Inr ()"
  shows "\<exists>before body w w'.
           requests (snd (syncExtensions env s)) = requests s @ before @ [Put apiUrl body hs] \<and>
           content body = toBase64 (JSON_stringify data) \<and>
           axios_put env apiUrl body hs w = (Inr (), w') \<and>
           world (snd (syncExtensions env s)) = w' \<and>
           list_all (upserts apiUrl (JSON_stringify data)) before"
proof -
  have info: "getInstalledExtensions env = extensions data"
    unfolding data getInstalledExtensions_def
    by (auto split: option.splits)
  have run: "syncExtensions env s = createOrUpdateFile env (JSON_stringify data) None s"
    by (simp add: syncExtensions_def info data Let_def)
  have target: "config_get ''fileName'' ''extensions.json'' s = target_file None s"
    by (simp add: target_file_def getConfig_def)
  show ?thesis
    using upsert_success [OF tok rep spl target url hs] ok
    unfolding run by simp
qed

lemma snapshot_encoded:
  "toBase64 (JSON_stringify snapshot) =
     ''ewogICJleHRlbnNpb25zIjogWwogICAgewogICAgICAiaWQiOiAibXMucHl0aG9uIiwKICAgICAgIm5hbWUiOiAiUHl0aG9uIiwKICAgICAgInZlcnNpb24iOiAiMS4wLjAiLAogICAgICAiZGVzY3JpcHRpb24iOiAiUHl0aG9uIGxhbmd1YWdlIHN1cHBvcnQiCiAgICB9LAogICAgewogICAgICAiaWQiOiAibXMuZ28iLAogICAgICAibmFtZSI6ICJnbyIsCiAgICAgICJ2ZXJzaW9uIjogIjIuMC4wIgogICAgfQogIF0sCiAgImxhc3RVcGRhdGVkIjogIjIwMjQtMDUtMDFUMDk6MDA6MDAuMDAwWiIsCiAgInZzY29kZVZlcnNpb24iOiAiMS44OS4wIgp9''"
  by code_simp

lemma snapshot_taken:
  "snapshot =
        \<lparr>extensions =
           map (\<lambda>ext. \<lparr>ext_id = id_of ext,
                       ext_name = (case displayName ext of
                                     None \<Rightarrow> pkg_name ext
                                   | Some d \<Rightarrow> if d = [] then pkg_name ext else d),
                       ext_version = pkg_version ext,
                       ext_description = pkg_description ext\<rparr>)
               (filter (\<lambda>ext. \<not> isBuiltin ext) (extensions_all two_extensions)),
         lastUpdated = toISOString two_extensions (world (signed_in (Map.empty :: remote))),
         vscodeVersion = vscode_version two_extensions\<rparr>"
  by (simp add: snapshot_def two_extensions_def github_def quiet_def)

lemma two_extensions_run:
  "syncExtensions two_extensions (signed_in Map.empty) =
     (Inr (),
      (signed_in Map.empty)
        \<lparr>world :=
           [''https://api.github.com/repos/alice/my-exts/contents/extensions.json'' \<mapsto>
              \<lparr>data_content = toBase64 (JSON_stringify snapshot),
               data_sha = take 7 (toBase64 (JSON_stringify snapshot))\<rparr>],
         requests :=
           [Get ''https://api.github.com/repos/alice/my-exts/contents/extensions.json''
              (upsert_headers ''gho_2b9f''),
            Put ''https://api.github.com/repos/alice/my-exts/contents/extensions.json''
              \<lparr>message = ''Create extensions.json - 2024-05-01T09:00:00.000Z'',
               content = toBase64 (JSON_stringify snapshot), sha = None\<rparr>
              (upsert_headers ''gho_2b9f'')]\<rparr>)"
proof -
  let ?s = "signed_in (Map.empty :: remote)"
  have tok: "getGitHubToken two_extensions ?s = (Inr ''gho_2b9f'', ?s)"
    by (rule stored_token_resolves)
       (simp_all add: signed_in_def two_extensions_def github_def quiet_def)
  have rep: "getRepository two_extensions ?s = (Inr ''alice/my-exts'', ?s)"
    by (rule configured_repository_resolves) (simp_all add: signed_in_def)
  have info: "getInstalledExtensions two_extensions = extensions snapshot"
    by (simp add: getInstalledExtensions_def snapshot_def two_extensions_def github_def quiet_def)
  have data: "\<lparr>extensions = extensions snapshot,
               lastUpdated = toISOString two_extensions (world ?s),
               vscodeVersion = vscode_version two_extensions\<rparr> = snapshot"
    by (simp add: snapshot_def two_extensions_def github_def quiet_def)
  have run: "syncExtensions two_extensions ?s =
      createOrUpdateFile two_extensions (JSON_stringify snapshot) None ?s"
    by (simp add: syncExtensions_def info data Let_def)
  have w: "world ?s = Map.empty" "requests ?s = []"
    by (simp_all add: signed_in_def)
  show ?thesis
    unfolding run upsert_outcome [OF tok rep alice_my_exts refl refl refl] signed_in_target w
    by (simp add: two_extensions_def github_def quiet_def remote_get_def remote_put_def
        contents_url_def createData_def)
qed

theorem syncExtensions_uploads_snapshot_witness:
  "fst (syncExtensions two_extensions (signed_in Map.empty)) = Inr () \<and>
   requests (snd (syncExtensions two_extensions (signed_in Map.empty))) =
     [Get ''https://api.github.com/repos/alice/my-exts/contents/extensions.json''
        (upsert_headers ''gho_2b9f''),
      Put ''https://api.github.com/repos/alice/my-exts/contents/extensions.json''
        \<lparr>message = ''Create extensions.json - 2024-05-01T09:00:00.000Z'',
         content =
           ''ewogICJleHRlbnNpb25zIjogWwogICAgewogICAgICAiaWQiOiAibXMucHl0aG9uIiwKICAgICAgIm5hbWUiOiAiUHl0aG9uIiwKICAgICAgInZlcnNpb24iOiAiMS4wLjAiLAogICAgICAiZGVzY3JpcHRpb24iOiAiUHl0aG9uIGxhbmd1YWdlIHN1cHBvcnQiCiAgICB9LAogICAgewogICAgICAiaWQiOiAibXMuZ28iLAogICAgICAibmFtZSI6ICJnbyIsCiAgICAgICJ2ZXJzaW9uIjogIjIuMC4wIgogICAgfQogIF0sCiAgImxhc3RVcGRhdGVkIjogIjIwMjQtMDUtMDFUMDk6MDA6MDAuMDAwWiIsCiAgInZzY29kZVZlcnNpb24iOiAiMS44OS4wIgp9'',
         sha = None\<rparr>
        (upsert_headers ''gho_2b9f'')] \<and>
   world (snd (syncExtensions two_extensions (signed_in Map.empty)))
       ''https://api.github.com/repos/alice/my-exts/contents/extensions.json'' =
     Some \<lparr>data_content =
             ''ewogICJleHRlbnNpb25zIjogWwogICAgewogICAgICAiaWQiOiAibXMucHl0aG9uIiwKICAgICAgIm5hbWUiOiAiUHl0aG9uIiwKICAgICAgInZlcnNpb24iOiAiMS4wLjAiLAogICAgICAiZGVzY3JpcHRpb24iOiAiUHl0aG9uIGxhbmd1YWdlIHN1cHBvcnQiCiAgICB9LAogICAgewogICAgICAiaWQiOiAibXMuZ28iLAogICAgICAibmFtZSI6ICJnbyIsCiAgICAgICJ2ZXJzaW9uIjogIjIuMC4wIgogICAgfQogIF0sCiAgImxhc3RVcGRhdGVkIjogIjIwMjQtMDUtMDFUMDk6MDA6MDAuMDAwWiIsCiAgInZzY29kZVZlcnNpb24iOiAiMS44OS4wIgp9'',
           data_sha = ''ewogICJ''\<rparr> \<and>
   (\<exists>before body w w'.
      requests (snd (syncExtensions two_extensions (signed_in Map.empty))) =
        before @
        [Put ''https://api.github.com/repos/alice/my-exts/contents/extensions.json'' body
           (upsert_headers ''gho_2b9f'')] \<and>
      content body = toBase64 (JSON_stringify snapshot) \<and>
      axios_put two_extensions
        ''https://api.github.com/repos/alice/my-exts/contents/extensions.json'' body
        (upsert_headers ''gho_2b9f'') w = (Inr (), w') \<and>
      world (snd (syncExtensions two_extensions (signed_in Map.empty))) = w' \<and>
      list_all (upserts ''https://api.github.com/repos/alice/my-exts/contents/extensions.json''
                  (JSON_stringify snapshot)) before)"
proof -
  let ?s = "signed_in (Map.empty :: remote)"
  have tok: "getGitHubToken two_extensions ?s = (Inr ''gho_2b9f'', ?s)"
    by (rule stored_token_resolves)
       (simp_all add: signed_in_def two_extensions_def github_def quiet_def)
  have rep: "getRepository two_extensions ?s = (Inr ''alice/my-exts'', ?s)"
    by (rule configured_repository_resolves) (simp_all add: signed_in_def)
  have url: "''https://api.github.com/repos/alice/my-exts/contents/extensions.json'' =
     contents_url ''alice'' ''my-exts'' (config_get ''fileName'' ''extensions.json'' ?s)"
    by (simp add: contents_url_def config_get_def signed_in_def)
  have ok: "fst (syncExtensions two_extensions ?s) = Inr ()"
    by (simp add: two_extensions_run)
  have rq: "requests ?s = []"
    by (simp add: signed_in_def)
  have "\<exists>before body w w'.
      requests (snd (syncExtensions two_extensions ?s)) =
        before @
        [Put ''https://api.github.com/repos/alice/my-exts/contents/extensions.json'' body
           (upsert_headers ''gho_2b9f'')] \<and>
      content body = toBase64 (JSON_stringify snapshot) \<and>
      axios_put two_extensions
        ''https://api.github.com/repos/alice/my-exts/contents/extensions.json'' body
        (upsert_headers ''gho_2b9f'') w = (Inr (), w') \<and>
      world (snd (syncExtensions two_extensions ?s)) = w' \<and>
      list_all (upserts ''https://api.github.com/repos/alice/my-exts/contents/extensions.json''
                  (JSON_stringify snapshot)) before"
    using syncExtensions_uploads_snapshot [OF tok rep alice_my_exts url refl snapshot_taken ok]
    unfolding rq by simp
  then show ?thesis
    by (simp add: two_extensions_run snapshot_encoded)
qed

section \<open>Properties of login\<close>

lemma preserves_succeed: "preserves f (succeed x)"
  by (simp add: preserves_def succeed_def)

lemma preserves_throw: "preserves f (throw e)"
  by (simp add: preserves_def throw_def)

lemma preserves_andThen:
  assumes "preserves f m" and "\<And>x. preserves f (g x)"
  shows "preserves f (andThen m g)"
  unfolding preserves_def
proof
  fix s
  show "f (snd (andThen m g s)) = f s"
  proof (cases "m s")
    case (Pair r s')
    then have "f s' = f s"
      using assms(1) by (auto simp add: preserves_def dest: spec [of _ s])
    then show ?thesis
      using Pair assms(2) by (cases r) (auto simp add: andThen_def preserves_def)
  qed
qed

lemma preserves_if: "preserves f a \<Longrightarrow> preserves f b \<Longrightarrow> preserves f (if c then a else b)"
  by simp

lemma after_andThen:
  assumes "\<And>x. preserves f (g x)"
  shows "f (snd (andThen m g s)) = f (snd (m s))"
  using assms by (cases "m s") (auto simp add: andThen_def preserves_def split: sum.splits)

lemma after_tryCatch:
  assumes "\<And>e. preserves f (h e)"
  shows "f (snd (tryCatch m h s)) = f (snd (m s))"
  using assms by (cases "m s") (auto simp add: tryCatch_def preserves_def split: sum.splits)

lemma input_box_keeps: "preserves config (input_box env p)" "preserves secrets (input_box env p)"
  by (simp_all add: preserves_def input_box_def split: prod.splits)

lemma config_update_keeps: "preserves secrets (config_update env key v)"
  by (simp add: preserves_def config_update_def split: option.splits)

lemma secrets_store_keeps: "preserves config (secrets_store env key v)"
  by (simp add: preserves_def secrets_store_def split: option.splits)

lemma getOAuth2Client_keeps: "preserves f (getOAuth2Client this)"
  by (simp add: preserves_def getOAuth2Client_def Let_def throw_def succeed_def)

lemma generateState_keeps: "preserves f (generateState env)"
  by (simp add: preserves_def generateState_def)

lemma openExternal_keeps: "preserves f (openExternal env uri)"
  by (simp add: preserves_def openExternal_def split: option.splits)

lemma oauth2_getToken_keeps:
  "preserves config (oauth2_getToken env oauth2 tokenParams)"
  "preserves secrets (oauth2_getToken env oauth2 tokenParams)"
  by (simp_all add: preserves_def oauth2_getToken_def split: prod.splits)

lemma getGitHubUser_keeps:
  "preserves config (getGitHubUser env token)" "preserves secrets (getGitHubUser env token)"
  by (simp_all add: preserves_def getGitHubUser_def http_get_user_def split: prod.splits)

lemma showInformationMessage_keeps:
  "preserves config (showInformationMessage msg)" "preserves secrets (showInformationMessage msg)"
  by (simp_all add: preserves_def showInformationMessage_def)

lemma showErrorMessage_keeps:
  "preserves config (showErrorMessage prefix e)" "preserves secrets (showErrorMessage prefix e)"
  by (simp_all add: preserves_def showErrorMessage_def)

lemma saveToken_keeps: "preserves config (saveToken env token user)"
  unfolding saveToken_def by (intro preserves_andThen secrets_store_keeps)

lemma setupOAuthApp_keeps: "preserves secrets (setupOAuthApp env)"
  unfolding setupOAuthApp_def
  by (intro preserves_andThen preserves_if preserves_succeed input_box_keeps config_update_keeps)

lemmas keeps_config =
  preserves_andThen preserves_if preserves_succeed preserves_throw input_box_keeps(1)
  getOAuth2Client_keeps generateState_keeps openExternal_keeps oauth2_getToken_keeps(1)
  getGitHubUser_keeps(1) saveToken_keeps showInformationMessage_keeps(1)
  showErrorMessage_keeps(1)

lemmas keeps_secrets =
  preserves_andThen preserves_if preserves_succeed preserves_throw input_box_keeps(2)
  getOAuth2Client_keeps generateState_keeps openExternal_keeps oauth2_getToken_keeps(2)
  getGitHubUser_keeps(2) setupOAuthApp_keeps showInformationMessage_keeps(2)
  showErrorMessage_keeps(2)

lemma login_config_after_setup:
  "config (snd (login env this s)) =
     config (snd ((if this_config_get this ''clientId'' [] = [] \<or>
                      this_config_get this ''clientSecret'' [] = []
                   then setupOAuthApp env else succeed True) s))"
proof -
  have "config (snd (login env this s)) =
        config (snd (andThen
          (if this_config_get this ''clientId'' [] = [] \<or>
              this_config_get this ''clientSecret'' [] = []
           then setupOAuthApp env else succeed True)
          (\<lambda>setupResult.
             if setupResult then
               andThen (getOAuth2Client this) (\<lambda>oauth2.
               andThen (generateState env) (\<lambda>state'.
               andThen (openExternal env
                          (authorizeURL env oauth2 REDIRECT_URI (join '' '' SCOPES) state')) (\<lambda>_.
               andThen (input_box env AuthCodePrompt) (\<lambda>authCode.
                 if falsy authCode then throw (Error auth_code_not_entered)
                 else
                   andThen (oauth2_getToken env oauth2
                              \<lparr>code = the authCode, redirect_uri = REDIRECT_URI\<rparr>) (\<lambda>token.
                   andThen (getGitHubUser env token) (\<lambda>user.
                   andThen (saveToken env token user) (\<lambda>_.
                   andThen (showInformationMessage (logged_in_as @ utf16 (user_login user)))
                     (\<lambda>_. succeed True))))))))
             else succeed False) s))"
    unfolding login_def
    by (rule after_tryCatch) (intro keeps_config)
  also have "\<dots> = config (snd ((if this_config_get this ''clientId'' [] = [] \<or>
       this_config_get this ''clientSecret'' [] = [] then setupOAuthApp env else succeed True) s))"
    by (rule after_andThen) (intro keeps_config)
  finally show ?thesis .
qed

lemma keeps_spares: "preserves secrets m \<Longrightarrow> spares env m"
  by (simp add: preserves_def spares_def)

lemma spares_andThen:
  assumes "preserves secrets m" and "\<And>x. spares env (g x)"
  shows "spares env (andThen m g)"
  unfolding spares_def
proof
  fix s
  show "fst (andThen m g s) = Inr True \<or> secrets (snd (andThen m g s)) = secrets s \<or>
        token_alone env s (snd (andThen m g s))"
  proof (cases "m s")
    case (Pair r s')
    then have same: "secrets s' = secrets s"
      using assms(1) by (auto simp add: preserves_def dest: spec [of _ s])
    show ?thesis
    proof (cases r)
      case (Inl e)
      then show ?thesis
        using Pair same by (simp add: andThen_def)
    next
      case (Inr x)
      have "fst (g x s') = Inr True \<or> secrets (snd (g x s')) = secrets s' \<or>
            token_alone env s' (snd (g x s'))"
        using assms(2) [of x] by (simp add: spares_def)
      then show ?thesis
        using Pair Inr same by (simp add: andThen_def token_alone_def)
    qed
  qed
qed

lemma spares_if: "spares env a \<Longrightarrow> spares env b \<Longrightarrow> spares env (if c then a else b)"
  by simp

lemma stored_and_greeted:
  "spares env
     (andThen (saveToken env token user) (\<lambda>_.
      andThen (showInformationMessage msg) (\<lambda>_. succeed True)))"
  unfolding spares_def
proof
  fix s
  show "fst (andThen (saveToken env token user) (\<lambda>_.
              andThen (showInformationMessage msg) (\<lambda>_. succeed True)) s) = Inr True \<or>
        secrets (snd (andThen (saveToken env token user) (\<lambda>_.
              andThen (showInformationMessage msg) (\<lambda>_. succeed True)) s)) = secrets s \<or>
        token_alone env s (snd (andThen (saveToken env token user) (\<lambda>_.
              andThen (showInformationMessage msg) (\<lambda>_. succeed True)) s))"
  proof (cases "fault env (SecretsStore ''github-token'') (world s)")
    case (Some e)
    then show ?thesis
      by (simp add: andThen_def saveToken_def secrets_store_def)
  next
    case None
    note first = this
    show ?thesis
    proof (cases "fault env (SecretsStore ''github-user'') (world s)")
      case None
      then show ?thesis
        using first
        by (simp add: andThen_def saveToken_def secrets_store_def showInformationMessage_def
            succeed_def)
    next
      case (Some e)
      then have "token_alone env s (s\<lparr>secrets := (secrets s)(''github-token'' \<mapsto> token)\<rparr>)"
        by (auto simp add: token_alone_def)
      then show ?thesis
        using first Some by (simp add: andThen_def saveToken_def secrets_store_def)
    qed
  qed
qed

lemma login_spares:
  "fst (login env this s) = Inr True \<or> secrets (snd (login env this s)) = secrets s \<or>
   token_alone env s (snd (login env this s))"
proof -
  let ?body = "andThen
          (if this_config_get this ''clientId'' [] = [] \<or>
              this_config_get this ''clientSecret'' [] = []
           then setupOAuthApp env else succeed True)
          (\<lambda>setupResult.
             if setupResult then
               andThen (getOAuth2Client this) (\<lambda>oauth2.
               andThen (generateState env) (\<lambda>state'.
               andThen (openExternal env
                          (authorizeURL env oauth2 REDIRECT_URI (join '' '' SCOPES) state')) (\<lambda>_.
               andThen (input_box env AuthCodePrompt) (\<lambda>authCode.
                 if falsy authCode then throw (Error auth_code_not_entered)
                 else
                   andThen (oauth2_getToken env oauth2
                              \<lparr>code = the authCode, redirect_uri = REDIRECT_URI\<rparr>) (\<lambda>token.
                   andThen (getGitHubUser env token) (\<lambda>user.
                   andThen (saveToken env token user) (\<lambda>_.
                   andThen (showInformationMessage (logged_in_as @ utf16 (user_login user)))
                     (\<lambda>_. succeed True))))))))
             else succeed False)"
  have body: "spares env ?body"
    apply (rule spares_andThen)
     apply (intro keeps_secrets)
    apply (rule spares_if)
     apply (rule spares_andThen, intro keeps_secrets)
     apply (rule spares_andThen, intro keeps_secrets)
     apply (rule spares_andThen, intro keeps_secrets)
     apply (rule spares_andThen, intro keeps_secrets)
     apply (rule spares_if)
      apply (rule keeps_spares, intro keeps_secrets)
     apply (rule spares_andThen, intro keeps_secrets)
     apply (rule spares_andThen, intro keeps_secrets)
     apply (rule stored_and_greeted)
    apply (rule keeps_spares, intro keeps_secrets)
    done
  have handler: "secrets (snd (andThen (showErrorMessage login_failed e) (\<lambda>_. succeed False) s')) =
      secrets s' \<and>
      world (snd (andThen (showErrorMessage login_failed e) (\<lambda>_. succeed False) s')) = world s'"
    for e and s' :: "'a state"
    by (simp add: andThen_def showErrorMessage_def succeed_def)
  have login: "login env this s = tryCatch ?body
      (\<lambda>error. andThen (showErrorMessage login_failed error) (\<lambda>_. succeed False)) s"
    by (simp add: login_def)
  show ?thesis
  proof (cases "?body s")
    case (Pair r s')
    have b: "r = Inr True \<or> secrets s' = secrets s \<or> token_alone env s s'"
      using body [unfolded spares_def, rule_format, of s] Pair by simp
    show ?thesis
    proof (cases r)
      case (Inl e)
      then have "secrets s' = secrets s \<or> token_alone env s s'"
        using b by simp
      then show ?thesis
        using Pair Inl handler [of e s']
        unfolding login by (auto simp add: tryCatch_def token_alone_def)
    next
      case (Inr x)
      then show ?thesis
        using Pair b unfolding login by (auto simp add: tryCatch_def)
    qed
  qed
qed

lemma setupOAuthApp_config:
  "config (snd (setupOAuthApp env s)) =
     (case showInputBox env ClientIdPrompt (world s) of
        (clientId, w) \<Rightarrow>
          if falsy clientId then config s
          else
            (case showInputBox env ClientSecretPrompt w of
               (clientSecret, w') \<Rightarrow>
                 if falsy clientSecret then config s
                 else
                   (case fault env (ConfigUpdate ''clientId'') w' of
                      Some e \<Rightarrow> config s
                    | None \<Rightarrow>
                        (case fault env (ConfigUpdate ''clientSecret'') w' of
                           Some e \<Rightarrow> (config s)(''clientId'' \<mapsto> the clientId)
                         | None \<Rightarrow>
                             (config s)(''clientId'' \<mapsto> the clientId,
                                        ''clientSecret'' \<mapsto> the clientSecret)))))"
  by (simp add: setupOAuthApp_def andThen_def input_box_def config_update_def succeed_def
      split: prod.splits option.splits)

lemma tryCatch_total:
  assumes "\<And>e s'. \<exists>b. fst (h e s') = Inr b"
  shows "\<exists>b. fst (tryCatch m h s) = Inr b"
proof (cases "m s")
  case (Pair r s')
  then show ?thesis
    using assms by (cases r) (simp_all add: tryCatch_def)
qed

lemma login_never_throws: "\<exists>b. fst (login env this s) = Inr b"
  unfolding login_def
  by (rule tryCatch_total) (auto simp add: andThen_def showErrorMessage_def succeed_def)

lemma login_needs_configured_instance:
  assumes "this_config_get this ''clientId'' [] = [] \<or>
           this_config_get this ''clientSecret'' [] = []"
  shows "fst (login env this s) = Inr False"
proof (cases "setupOAuthApp env s")
  case (Pair r s')
  show ?thesis
  proof (cases r)
    case (Inl e)
    then show ?thesis
      using Pair assms
      by (simp add: login_def tryCatch_def andThen_def showErrorMessage_def succeed_def)
  next
    case (Inr setupResult)
    then show ?thesis
      using Pair assms
      by (cases setupResult)
        (simp_all add: login_def tryCatch_def andThen_def showErrorMessage_def succeed_def
          getOAuth2Client_def throw_def)
  qed
qed

text \<open>
  C4. A run of \<open>login\<close> that answers false leaves the secret storage as it found it, with
  one exception: where the host refuses the write of \<open>github-user\<close>, the token written
  just before stays stored. The stored configuration at the end is what the set-up made of
  it. Nothing is written when the configuration of the instance names a client id and a
  client secret. Otherwise the id and the secret are written only once both prompts have
  been answered, so that a cancelled prompt leaves the configuration as it was, also when
  an id had been entered; and where the host refuses the update of the id nothing is
  written, where it refuses the update of the secret the id alone is.
\<close>

theorem login_aborted:
  assumes "fst (login env this s) = Inr False"
  shows "(secrets (snd (login env this s)) = secrets s \<or>
          token_alone env s (snd (login env this s))) \<and>
         config (snd (login env this s)) =
           (if this_config_get this ''clientId'' [] = [] \<or>
               this_config_get this ''clientSecret'' [] = []
            then
              (case showInputBox env ClientIdPrompt (world s) of
                 (clientId, w) \<Rightarrow>
                   if falsy clientId then config s
                   else
                     (case showInputBox env ClientSecretPrompt w of
                        (clientSecret, w') \<Rightarrow>
                          if falsy clientSecret then config s
                          else
                            (case fault env (ConfigUpdate ''clientId'') w' of
                               Some e \<Rightarrow> config s
                             | None \<Rightarrow>
                                 (case fault env (ConfigUpdate ''clientSecret'') w' of
                                    Some e \<Rightarrow> (config s)(''clientId'' \<mapsto> the clientId)
                                  | None \<Rightarrow>
                                      (config s)(''clientId'' \<mapsto> the clientId,
                                                 ''clientSecret'' \<mapsto> the clientSecret)))))
            else config s)"
proof
  show "secrets (snd (login env this s)) = secrets s \<or> token_alone env s (snd (login env this s))"
    using login_spares [of env this s] assms by simp
  show "config (snd (login env this s)) =
           (if this_config_get this ''clientId'' [] = [] \<or>
               this_config_get this ''clientSecret'' [] = []
            then
              (case showInputBox env ClientIdPrompt (world s) of
                 (clientId, w) \<Rightarrow>
                   if falsy clientId then config s
                   else
                     (case showInputBox env ClientSecretPrompt w of
                        (clientSecret, w') \<Rightarrow>
                          if falsy clientSecret then config s
                          else
                            (case fault env (ConfigUpdate ''clientId'') w' of
                               Some e \<Rightarrow> config s
                             | None \<Rightarrow>
                                 (case fault env (ConfigUpdate ''clientSecret'') w' of
                                    Some e \<Rightarrow> (config s)(''clientId'' \<mapsto> the clientId)
                                  | None \<Rightarrow>
                                      (config s)(''clientId'' \<mapsto> the clientId,
                                                 ''clientSecret'' \<mapsto> the clientSecret)))))
            else config s)"
    unfolding login_config_after_setup
    by (simp add: setupOAuthApp_config succeed_def)
qed

lemmas login_defs =
  login_def tryCatch_def andThen_def succeed_def throw_def setupOAuthApp_def input_box_def
  config_update_def getOAuth2Client_def generateState_def openExternal_def oauth2_getToken_def
  getGitHubUser_def http_get_user_def saveToken_def secrets_store_def
  showInformationMessage_def showErrorMessage_def Let_def new_GitHubAuth_def this_config_get_def

text \<open>
  A first run: the user enters the client id and the client secret, both are saved, and
  the run aborts all the same, since \<open>getOAuth2Client\<close> reads the configuration the
  instance was constructed with. An instance constructed afterwards finds both values.
\<close>

lemma first_run:
  "login enters_both (new_GitHubAuth (fresh ())) (fresh ()) =
     (Inr False,
      \<lparr>config = [''clientId'' \<mapsto> ''Iv1.8a61f9b3a7aba766'', ''clientSecret'' \<mapsto> ''5c1f0d3e9b7a''],
       secrets = Map.empty, files = Map.empty, world = (),
       requests = [],
       notifications = [ErrorMessage login_failed (Error oauth_not_configured)]\<rparr>)"
  by (simp add: login_defs enters_both_def quiet_def fresh_def)

theorem login_aborted_witness:
  "fst (login enters_both (new_GitHubAuth (fresh ())) (fresh ())) = Inr False \<and>
   notifications (snd (login enters_both (new_GitHubAuth (fresh ())) (fresh ()))) =
     [ErrorMessage login_failed (Error oauth_not_configured)] \<and>
   secrets (snd (login enters_both (new_GitHubAuth (fresh ())) (fresh ()))) = Map.empty \<and>
   config (snd (login enters_both (new_GitHubAuth (fresh ())) (fresh ()))) =
     [''clientId'' \<mapsto> ''Iv1.8a61f9b3a7aba766'', ''clientSecret'' \<mapsto> ''5c1f0d3e9b7a''] \<and>
   this_config (new_GitHubAuth (snd (login enters_both (new_GitHubAuth (fresh ())) (fresh ())))) =
     [''clientId'' \<mapsto> ''Iv1.8a61f9b3a7aba766'', ''clientSecret'' \<mapsto> ''5c1f0d3e9b7a'']"
proof -
  have aborted: "fst (login enters_both (new_GitHubAuth (fresh ())) (fresh ())) = Inr False"
    by (simp add: first_run)
  have shown: "notifications (snd (login enters_both (new_GitHubAuth (fresh ())) (fresh ()))) =
      [ErrorMessage login_failed (Error oauth_not_configured)]"
    by (simp add: first_run)
  have store: "fault enters_both (SecretsStore key) w = None" for key w
    by (simp add: enters_both_def quiet_def)
  show ?thesis
    using login_aborted [OF aborted] aborted shown
    by (simp add: token_alone_def store new_GitHubAuth_def this_config_get_def enters_both_def
        quiet_def fresh_def)
qed

text \<open>
  Two runs that answer false. In the first the user enters a client id and cancels the
  prompt for the secret: no client id is in the configuration afterwards. In the second
  the host refuses the write of \<open>github-user\<close>: the token is in the secret storage
  afterwards.
\<close>

theorem login_drops_entered_client_id:
  "showInputBox cancels_secret ClientIdPrompt (world (fresh ())) =
     (Some ''Iv1.8a61f9b3a7aba766'', ()) \<and>
   fst (login cancels_secret (new_GitHubAuth (fresh ())) (fresh ())) = Inr False \<and>
   config (snd (login cancels_secret (new_GitHubAuth (fresh ())) (fresh ()))) ''clientId'' = None \<and>
   fst (login identity_refused (new_GitHubAuth installed) installed) = Inr False \<and>
   secrets installed ''github-token'' = None \<and>
   secrets (snd (login identity_refused (new_GitHubAuth installed) installed)) ''github-token'' =
     Some ''gho_2b9f''"
  by (simp add: login_defs cancels_secret_def identity_refused_def quiet_def fresh_def
      installed_def)

end
